theory Spec2Isabelle
  imports Main
begin

section \<open>Python strings\<close>

text \<open>
  Source text and string values are Python \<open>str\<close> objects. They are modelled as
  \<open>string\<close>, one \<open>char\<close> per code point, so the model covers texts whose code
  points are below 256; offsets count code points, as \<open>mo.start()\<close> does.
\<close>

abbreviation nl :: char where "nl \<equiv> CHR 0x0A"
abbreviation squote :: char where "squote \<equiv> CHR 0x27"
abbreviation bslash :: char where "bslash \<equiv> CHR 0x5C"
abbreviation dquote :: char where "dquote \<equiv> CHR 0x22"
abbreviation tab :: char where "tab \<equiv> CHR 0x09"

text \<open>Index normalisation of a Python slice bound against a string of length \<open>n\<close>.\<close>

definition norm_idx :: "nat \<Rightarrow> int \<Rightarrow> nat" where
  "norm_idx n i = (if i < 0 then nat (max 0 (int n + i)) else min (nat i) n)"

text \<open>\<open>s[a:b]\<close>\<close>

definition py_slice :: "string \<Rightarrow> int \<Rightarrow> int \<Rightarrow> string" where
  "py_slice s a b =
     (let a' = norm_idx (length s) a; b' = norm_idx (length s) b
      in take (b' - a') (drop a' s))"

fun index_of :: "char \<Rightarrow> string \<Rightarrow> nat option" where
  "index_of c [] = None"
| "index_of c (d # ds) = (if c = d then Some 0 else map_option Suc (index_of c ds))"

text \<open>\<open>s.find(c, start)\<close>: the first index at or after \<open>start\<close>, or \<open>-1\<close>.\<close>

definition py_find :: "string \<Rightarrow> char \<Rightarrow> int \<Rightarrow> int" where
  "py_find s c start =
     (let a = norm_idx (length s) start
      in case index_of c (drop a s) of None \<Rightarrow> - 1 | Some k \<Rightarrow> int (a + k))"

text \<open>\<open>str(n)\<close> for an integer.\<close>

definition digit_char :: "nat \<Rightarrow> char" where
  "digit_char d = ''0123456789'' ! d"

function str_nat :: "nat \<Rightarrow> string" where
  "str_nat n = (if n < 10 then [digit_char n] else str_nat (n div 10) @ [digit_char (n mod 10)])"
  by pat_completeness auto
termination
  by (relation "measure id") auto

declare str_nat.simps [simp del]

definition str_int :: "int \<Rightarrow> string" where
  "str_int i = (if i < 0 then CHR ''-'' # str_nat (nat (- i)) else str_nat (nat i))"

section \<open>Errors\<close>

text \<open>
  Every exception of the source is a value. \<open>ParseException text line lineno colno\<close> and
  \<open>BlockParseException text line lineno colno start_line start_lineno start_colno\<close> keep
  the constructor arguments. \<open>Unrepresentable\<close> marks an escape sequence whose decoded
  code point lies outside the 8-bit characters of the model (or needs the Unicode name
  table); \<open>OutOfFuel\<close> is not a Python exception: it is the parser model running out of
  its recursion budget.
\<close>

datatype error =
    ParseException string string int int
  | BlockParseException string string int int string int int
  | MesonException string
  | AssertionError
  | TypeError
  | AttributeError
  | KeyError string
  | Unrepresentable string
  | OutOfFuel

text \<open>The message \<open>ParseException.__init__\<close> builds: text, line, caret line.\<close>

definition parse_exception_str :: "string \<Rightarrow> string \<Rightarrow> int \<Rightarrow> string" where
  "parse_exception_str text line colno =
     text @ [nl] @ line @ [nl] @ replicate (nat colno) CHR '' '' @ ''^''"

section \<open>Tokens and comments\<close>

datatype tvalue = VNone | VStr string | VInt int | VBool bool

text \<open>
  The token tags. \<open>Token.tid\<close> is a Python string, but only ever one of the names of
  \<open>token_specification\<close>, a keyword, \<open>eof\<close>, or a name the parser asks for
  (\<open>notin\<close>, which no token carries): the enumeration of those names, with \<open>tid_str\<close>
  giving the string.
\<close>

datatype tid =
    T_ignore | T_multiline_fstring | T_fstring | T_id | T_number | T_eol_cont | T_eol
  | T_multiline_string | T_comment | T_lparen | T_rparen | T_lbracket | T_rbracket | T_lcurl
  | T_rcurl | T_dblquote | T_string | T_comma | T_plusassign | T_dot | T_plus | T_dash | T_star
  | T_percent | T_fslash | T_colon | T_equal | T_nequal | T_assign | T_le | T_lt | T_ge | T_gt
  | T_questionmark | T_eof | T_notin
  | T_true | T_false | T_if | T_else | T_elif | T_endif | T_and | T_or | T_not | T_foreach
  | T_endforeach | T_in | T_continue | T_break

fun tid_str :: "tid \<Rightarrow> string" where
  "tid_str T_ignore = ''ignore''"
| "tid_str T_multiline_fstring = ''multiline_fstring''"
| "tid_str T_fstring = ''fstring''"
| "tid_str T_id = ''id''"
| "tid_str T_number = ''number''"
| "tid_str T_eol_cont = ''eol_cont''"
| "tid_str T_eol = ''eol''"
| "tid_str T_multiline_string = ''multiline_string''"
| "tid_str T_comment = ''comment''"
| "tid_str T_lparen = ''lparen''"
| "tid_str T_rparen = ''rparen''"
| "tid_str T_lbracket = ''lbracket''"
| "tid_str T_rbracket = ''rbracket''"
| "tid_str T_lcurl = ''lcurl''"
| "tid_str T_rcurl = ''rcurl''"
| "tid_str T_dblquote = ''dblquote''"
| "tid_str T_string = ''string''"
| "tid_str T_comma = ''comma''"
| "tid_str T_plusassign = ''plusassign''"
| "tid_str T_dot = ''dot''"
| "tid_str T_plus = ''plus''"
| "tid_str T_dash = ''dash''"
| "tid_str T_star = ''star''"
| "tid_str T_percent = ''percent''"
| "tid_str T_fslash = ''fslash''"
| "tid_str T_colon = ''colon''"
| "tid_str T_equal = ''equal''"
| "tid_str T_nequal = ''nequal''"
| "tid_str T_assign = ''assign''"
| "tid_str T_le = ''le''"
| "tid_str T_lt = ''lt''"
| "tid_str T_ge = ''ge''"
| "tid_str T_gt = ''gt''"
| "tid_str T_questionmark = ''questionmark''"
| "tid_str T_eof = ''eof''"
| "tid_str T_notin = ''notin''"
| "tid_str T_true = ''true''"
| "tid_str T_false = ''false''"
| "tid_str T_if = ''if''"
| "tid_str T_else = ''else''"
| "tid_str T_elif = ''elif''"
| "tid_str T_endif = ''endif''"
| "tid_str T_and = ''and''"
| "tid_str T_or = ''or''"
| "tid_str T_not = ''not''"
| "tid_str T_foreach = ''foreach''"
| "tid_str T_endforeach = ''endforeach''"
| "tid_str T_in = ''in''"
| "tid_str T_continue = ''continue''"
| "tid_str T_break = ''break''"

record token =
  tid :: tid
  filename :: string
  line_start :: int
  lineno :: int
  colno :: int
  bytespan :: "int \<times> int"
  tvalue :: tvalue

record comment =
  c_line_start :: int
  c_lineno :: int
  c_colno :: int
  c_bytespan :: "int \<times> int"
  c_text :: string

section \<open>The token patterns\<close>

text \<open>
  A pattern is tried at the head of the remaining text and answers the length of its
  match, as \<open>reg.match(self.code, loc)\<close> answers \<open>mo.end() - loc\<close>.
\<close>

type_synonym matcher = "string \<Rightarrow> nat option"

definition lit :: "string \<Rightarrow> matcher" where
  "lit p r = (if p \<noteq> [] \<and> take (length p) r = p then Some (length p) else None)"

definition is_digit :: "char \<Rightarrow> bool" where
  "is_digit c = (c \<in> set ''0123456789'')"

definition is_id_start :: "char \<Rightarrow> bool" where
  "is_id_start c = (c \<in> set ''_abcdefghijklmnopqrstuvwxyzABCDEFGHIJKLMNOPQRSTUVWXYZ'')"

definition is_id_char :: "char \<Rightarrow> bool" where
  "is_id_char c = (is_id_start c \<or> is_digit c)"

definition is_hex :: "char \<Rightarrow> bool" where
  "is_hex c = (c \<in> set ''0123456789abcdefABCDEF'')"

definition is_oct :: "char \<Rightarrow> bool" where
  "is_oct c = (c \<in> set ''01234567'')"

definition is_bin :: "char \<Rightarrow> bool" where
  "is_bin c = (c \<in> set ''01'')"

text \<open>\<open>[ \t]\<close>\<close>

definition re_ignore :: matcher where
  "re_ignore r = (case r of [] \<Rightarrow> None | c # cs \<Rightarrow> if c = CHR '' '' \<or> c = tab then Some 1 else None)"

text \<open>
  The tail \<open>(.|\n)*?'''\<close> of a multi-line literal: the number of characters before the
  first three consecutive quotes.
\<close>

fun find_triple :: "string \<Rightarrow> nat option" where
  "find_triple [] = None"
| "find_triple (c # cs) =
     (if take 3 (c # cs) = [squote, squote, squote] then Some 0
      else map_option Suc (find_triple cs))"

definition re_multiline_fstring :: matcher where
  "re_multiline_fstring r =
     (if take 4 r = [CHR ''f'', squote, squote, squote]
      then map_option (\<lambda>k. k + 7) (find_triple (drop 4 r)) else None)"

definition re_multiline_string :: matcher where
  "re_multiline_string r =
     (if take 3 r = [squote, squote, squote]
      then map_option (\<lambda>k. k + 6) (find_triple (drop 3 r)) else None)"

text \<open>
  The tail \<open>([^'\\]|(\\.))*'\<close> of a single-line literal, closing quote included. The two
  alternatives start with different characters, so the scan is deterministic; \<open>.\<close> does
  not match a newline.
\<close>

fun str_body :: "string \<Rightarrow> nat option" where
  "str_body [] = None"
| "str_body (c # cs) =
     (if c = squote then Some 1
      else if c = bslash then
        (case cs of [] \<Rightarrow> None
         | d # ds \<Rightarrow> if d = nl then None else map_option (\<lambda>n. n + 2) (str_body ds))
      else map_option Suc (str_body cs))"

definition re_fstring :: matcher where
  "re_fstring r =
     (if take 2 r = [CHR ''f'', squote]
      then map_option (\<lambda>n. n + 2) (str_body (drop 2 r)) else None)"

definition re_string :: matcher where
  "re_string r =
     (if take 1 r = [squote] then map_option Suc (str_body (drop 1 r)) else None)"

text \<open>\<open>[_a-zA-Z][_0-9a-zA-Z]*\<close>\<close>

definition re_id :: matcher where
  "re_id r =
     (case r of [] \<Rightarrow> None
      | c # cs \<Rightarrow> if is_id_start c then Some (Suc (length (takeWhile is_id_char cs))) else None)"

text \<open>\<open>0[bB][01]+\<close> and its octal and hexadecimal siblings.\<close>

definition re_prefixed :: "string \<Rightarrow> (char \<Rightarrow> bool) \<Rightarrow> matcher" where
  "re_prefixed letters dig r =
     (case r of
        z # l # ds \<Rightarrow>
          if z = CHR ''0'' \<and> l \<in> set letters \<and> takeWhile dig ds \<noteq> []
          then Some (length (takeWhile dig ds) + 2) else None
      | _ \<Rightarrow> None)"

text \<open>\<open>0[bB][01]+|0[oO][0-7]+|0[xX][0-9a-fA-F]+|0|[1-9]\d*\<close>, alternatives in order.\<close>

definition re_number :: matcher where
  "re_number r =
     (case re_prefixed ''bB'' is_bin r of Some n \<Rightarrow> Some n | None \<Rightarrow>
      case re_prefixed ''oO'' is_oct r of Some n \<Rightarrow> Some n | None \<Rightarrow>
      case re_prefixed ''xX'' is_hex r of Some n \<Rightarrow> Some n | None \<Rightarrow>
      case r of [] \<Rightarrow> None
      | c # cs \<Rightarrow>
          if c = CHR ''0'' then Some 1
          else if c \<in> set ''123456789'' then Some (Suc (length (takeWhile is_digit cs)))
          else None)"

text \<open>\<open>#.*\<close>\<close>

definition re_comment :: matcher where
  "re_comment r =
     (case r of [] \<Rightarrow> None
      | c # cs \<Rightarrow> if c = CHR ''#'' then Some (Suc (length (takeWhile (\<lambda>d. d \<noteq> nl) cs))) else None)"

text \<open>\<open>Lexer.token_specification\<close>, in the source's order.\<close>

definition token_specification :: "(tid \<times> matcher) list" where
  "token_specification =
    [(T_ignore, re_ignore),
     (T_multiline_fstring, re_multiline_fstring),
     (T_fstring, re_fstring),
     (T_id, re_id),
     (T_number, re_number),
     (T_eol_cont, lit [bslash, nl]),
     (T_eol, lit [nl]),
     (T_multiline_string, re_multiline_string),
     (T_comment, re_comment),
     (T_lparen, lit ''(''),
     (T_rparen, lit '')''),
     (T_lbracket, lit ''[''),
     (T_rbracket, lit '']''),
     (T_lcurl, lit ''{''),
     (T_rcurl, lit ''}''),
     (T_dblquote, lit [dquote]),
     (T_string, re_string),
     (T_comma, lit '',''),
     (T_plusassign, lit ''+=''),
     (T_dot, lit ''.''),
     (T_plus, lit ''+''),
     (T_dash, lit ''-''),
     (T_star, lit ''*''),
     (T_percent, lit ''%''),
     (T_fslash, lit ''/''),
     (T_colon, lit '':''),
     (T_equal, lit ''==''),
     (T_nequal, lit ''!=''),
     (T_assign, lit ''=''),
     (T_le, lit ''<=''),
     (T_lt, lit ''<''),
     (T_ge, lit ''>=''),
     (T_gt, lit ''>''),
     (T_questionmark, lit ''?'')]"

text \<open>The \<open>for (tid, reg) in self.token_specification\<close> loop: the first pattern that matches.\<close>

fun first_match :: "(tid \<times> matcher) list \<Rightarrow> string \<Rightarrow> (tid \<times> nat) option" where
  "first_match [] r = None"
| "first_match ((t, m) # spec) r =
     (case m r of Some n \<Rightarrow> Some (t, n) | None \<Rightarrow> first_match spec r)"

section \<open>Escape sequences\<close>

text \<open>
  \<open>ESCAPE_SEQUENCE_SINGLE_RE.sub(decode_match, value)\<close>. The pattern's alternatives are
  tried in order at each position; where none matches, the character is copied.
  \<open>hex_value\<close> reads digits in a base, as \<open>codecs.decode(..., 'unicode_escape')\<close> does.
\<close>

definition digit_value :: "char \<Rightarrow> nat" where
  "digit_value c =
     (case index_of c ''0123456789abcdef'' of Some k \<Rightarrow> k
      | None \<Rightarrow> (case index_of c ''ABCDEF'' of Some k \<Rightarrow> k + 10 | None \<Rightarrow> 0))"

definition digits_value :: "nat \<Rightarrow> string \<Rightarrow> nat" where
  "digits_value base ds = foldl (\<lambda>acc c. acc * base + digit_value c) 0 ds"

text \<open>
  The decoded text of a code point: a character below 256; above \<open>0x10FFFF\<close> the codec
  raises \<open>UnicodeDecodeError\<close>, which \<open>decode_match\<close> turns into
  \<open>MesonUnicodeDecodeError(match)\<close> (here \<open>Inl (Inl match)\<close>); between the two the
  code point has no \<open>char\<close> (\<open>Inl (Inr match)\<close>).
\<close>

definition code_point :: "string \<Rightarrow> nat \<Rightarrow> (string + string) + string" where
  "code_point m v =
     (if v < 256 then Inr [char_of v]
      else if v > 0x10FFFF then Inl (Inl m)
      else Inl (Inr m))"

definition single_escape :: "char \<Rightarrow> char option" where
  "single_escape c =
     (if c = bslash then Some bslash
      else if c = squote then Some squote
      else if c = CHR ''a'' then Some (CHR 0x07)
      else if c = CHR ''b'' then Some (CHR 0x08)
      else if c = CHR ''f'' then Some (CHR 0x0C)
      else if c = CHR ''n'' then Some nl
      else if c = CHR ''r'' then Some (CHR 0x0D)
      else if c = CHR ''t'' then Some tab
      else if c = CHR ''v'' then Some (CHR 0x0B)
      else None)"

text \<open>
  One attempt of the pattern at the head of \<open>s\<close>: the length of the match and what
  \<open>decode_match\<close> makes of it.
\<close>

definition escape_match :: "string \<Rightarrow> (nat \<times> ((string + string) + string)) option" where
  "escape_match s =
     (case s of
        b # k # r \<Rightarrow>
          if b \<noteq> bslash then None
          else if k = CHR ''U'' \<and> length (takeWhile is_hex (take 8 r)) = 8
            then Some (10, code_point (take 10 s) (digits_value 16 (take 8 r)))
          else if k = CHR ''u'' \<and> length (takeWhile is_hex (take 4 r)) = 4
            then Some (6, code_point (take 6 s) (digits_value 16 (take 4 r)))
          else if k = CHR ''x'' \<and> length (takeWhile is_hex (take 2 r)) = 2
            then Some (4, code_point (take 4 s) (digits_value 16 (take 2 r)))
          else if is_oct k
            then (let ds = takeWhile is_oct (take 3 (k # r))
                  in Some (Suc (length ds), code_point (take (Suc (length ds)) s) (digits_value 8 ds)))
          else if k = CHR ''N'' \<and> take 1 r = ''{''
                  \<and> takeWhile (\<lambda>c. c \<noteq> CHR ''}'') (drop 1 r) \<noteq> []
                  \<and> takeWhile (\<lambda>c. c \<noteq> CHR ''}'') (drop 1 r) \<noteq> drop 1 r
            then (let n = length (takeWhile (\<lambda>c. c \<noteq> CHR ''}'') (drop 1 r)) + 4
                  in Some (n, Inl (Inr (take n s))))
          else (case single_escape k of Some c \<Rightarrow> Some (2, Inr [c]) | None \<Rightarrow> None)
      | _ \<Rightarrow> None)"

lemma escape_match_pos: "escape_match s = Some (n, out) \<Longrightarrow> 0 < n"
  by (auto simp: escape_match_def Let_def split: list.splits if_splits option.splits)

function escape_sub :: "string \<Rightarrow> (string + string) + string" where
  "escape_sub s =
     (case escape_match s of
        Some (n, Inl e) \<Rightarrow> Inl e
      | Some (n, Inr out) \<Rightarrow>
          (case escape_sub (drop n s) of Inl e \<Rightarrow> Inl e | Inr rest \<Rightarrow> Inr (out @ rest))
      | None \<Rightarrow>
          (case s of [] \<Rightarrow> Inr []
           | c # cs \<Rightarrow> (case escape_sub cs of Inl e \<Rightarrow> Inl e | Inr rest \<Rightarrow> Inr (c # rest))))"
  by pat_completeness auto
termination
proof (relation "measure length")
  show "wf (measure length)" by simp
next
  fix s :: string and x2 and n :: nat and y and out :: string
  assume "escape_match s = Some x2" and "(n, y) = x2" and "y = Inr out"
  then have "escape_match s = Some (n, Inr out)" by simp
  then have "0 < n" and "s \<noteq> []"
    by (auto dest: escape_match_pos) (simp add: escape_match_def)
  then show "(drop n s, s) \<in> measure length" by simp
next
  fix s :: string and c cs
  assume "s = c # cs"
  then show "(cs, s) \<in> measure length" by simp
qed

declare escape_sub.simps [simp del]

section \<open>The lexer\<close>

text \<open>
  The fields and local variables of \<open>Lexer.lex\<close>: a generator is resumed where it
  stopped, so its locals live in the state. \<open>warnings\<close> is the log of
  \<open>mlog.warning\<close>, the diagnostic sink; of each call the message is kept.
\<close>

record lexer =
  code :: string
  lx_filename :: string
  lx_line_start :: int
  lx_lineno :: int
  loc :: nat
  par_count :: int
  bracket_count :: int
  curl_count :: int
  col :: int
  comments :: "comment list"
  warnings :: "string list"

definition lex_keywords :: "(string \<times> tid) list" where
  "lex_keywords =
     [(''true'', T_true), (''false'', T_false), (''if'', T_if), (''else'', T_else),
      (''elif'', T_elif), (''endif'', T_endif), (''and'', T_and), (''or'', T_or), (''not'', T_not),
      (''foreach'', T_foreach), (''endforeach'', T_endforeach), (''in'', T_in),
      (''continue'', T_continue), (''break'', T_break)]"

definition future_keywords :: "string list" where
  "future_keywords = [''return'']"

text \<open>\<open>Lexer.getline\<close>: \<open>self.code[line_start:self.code.find('\n', line_start)]\<close>\<close>

definition getline :: "string \<Rightarrow> int \<Rightarrow> string" where
  "getline c ls = py_slice c ls (py_find c nl ls)"

text \<open>\<open>int(match_text, base=0)\<close> on a match of the number pattern.\<close>

definition int_base0 :: "string \<Rightarrow> int" where
  "int_base0 t =
     (case t of
        z # l # ds \<Rightarrow>
          if l \<in> set ''bB'' then int (digits_value 2 ds)
          else if l \<in> set ''oO'' then int (digits_value 8 ds)
          else if l \<in> set ''xX'' then int (digits_value 16 ds)
          else int (digits_value 10 t)
      | _ \<Rightarrow> int (digits_value 10 t))"

text \<open>
  \<open>Token(tid, filename, curline_start, curline, col, bytespan, value)\<close> for a match of
  length \<open>n\<close> found in state \<open>lx\<close>.
\<close>

definition mk_token :: "lexer \<Rightarrow> tid \<Rightarrow> nat \<Rightarrow> tvalue \<Rightarrow> token" where
  "mk_token lx t n v =
     \<lparr>tid = t, filename = lx_filename lx, line_start = lx_line_start lx,
      lineno = lx_lineno lx, colno = int (loc lx) - lx_line_start lx,
      bytespan = (int (loc lx), int (loc lx + n)), tvalue = v\<rparr>"

definition newline_warning :: "string" where
  "newline_warning =
     ''Newline character in a string detected, use '' @ [squote, squote, squote]
     @ '' (three single quotes) for multiline strings instead.'' @ [nl]
     @ ''This will become a hard error in a future Meson release.''"

text \<open>
  The body of \<open>if mo:\<close> in \<open>Lexer.lex\<close>, for a match of pattern \<open>t\<close> of length \<open>n\<close>: an
  error, a token to yield, or nothing (the text was skipped), with the state after it.
\<close>

definition lex_matched :: "lexer \<Rightarrow> tid \<Rightarrow> nat \<Rightarrow> error + (token option \<times> lexer)" where
  "lex_matched lx t n =
     (let match_text = take n (drop (loc lx) (code lx));
          col' = int (loc lx) - lx_line_start lx;
          lx1 = lx\<lparr>col := col', loc := loc lx + n\<rparr>
      in
      if t = T_ignore then Inr (None, lx1)
      else if t = T_lparen then
        Inr (Some (mk_token lx t n VNone), lx1\<lparr>par_count := par_count lx + 1\<rparr>)
      else if t = T_rparen then
        Inr (Some (mk_token lx t n VNone), lx1\<lparr>par_count := par_count lx - 1\<rparr>)
      else if t = T_lbracket then
        Inr (Some (mk_token lx t n VNone), lx1\<lparr>bracket_count := bracket_count lx + 1\<rparr>)
      else if t = T_rbracket then
        Inr (Some (mk_token lx t n VNone), lx1\<lparr>bracket_count := bracket_count lx - 1\<rparr>)
      else if t = T_lcurl then
        Inr (Some (mk_token lx t n VNone), lx1\<lparr>curl_count := curl_count lx + 1\<rparr>)
      else if t = T_rcurl then
        Inr (Some (mk_token lx t n VNone), lx1\<lparr>curl_count := curl_count lx - 1\<rparr>)
      else if t = T_dblquote then
        Inl (ParseException ''Double quotes are not supported. Use single quotes.''
               (getline (code lx) (lx_line_start lx)) (lx_lineno lx) col')
      else if t = T_string \<or> t = T_fstring then
        (let lx2 = (if nl \<in> set match_text
                    then lx1\<lparr>warnings := warnings lx @
                           [parse_exception_str newline_warning
                              (getline (code lx) (lx_line_start lx)) col']\<rparr>
                    else lx1)
         in case escape_sub (py_slice match_text (if t = T_fstring then 2 else 1) (- 1)) of
              Inl (Inl m) \<Rightarrow>
                Inl (MesonException (''Failed to parse escape sequence: '' @ [squote] @ m
                       @ [squote] @ '' in string:'' @ [nl] @ ''  '' @ match_text))
            | Inl (Inr m) \<Rightarrow> Inl (Unrepresentable m)
            | Inr v \<Rightarrow> Inr (Some (mk_token lx t n (VStr v)), lx2))
      else if t = T_multiline_string \<or> t = T_multiline_fstring then
        (let t' = (if t = T_multiline_string then T_string else t);
             v = (if t = T_multiline_string then py_slice match_text 3 (- 3)
                  else py_slice match_text 4 (- 3));
             last_line = rev (takeWhile (\<lambda>c. c \<noteq> nl) (rev match_text));
             lx2 = (if nl \<in> set match_text
                    then lx1\<lparr>lx_lineno := lx_lineno lx + int (count_list match_text nl),
                             lx_line_start := int (loc lx + n) - int (length last_line)\<rparr>
                    else lx1)
         in Inr (Some (mk_token lx t' n (VStr v)), lx2))
      else if t = T_number then
        Inr (Some (mk_token lx t n (VInt (int_base0 match_text))), lx1)
      else if t = T_eol_cont then
        Inr (None, lx1\<lparr>lx_lineno := lx_lineno lx + 1, lx_line_start := int (loc lx + n)\<rparr>)
      else if t = T_eol then
        (let lx2 = lx1\<lparr>lx_lineno := lx_lineno lx + 1, lx_line_start := int (loc lx + n)\<rparr>
         in if par_count lx > 0 \<or> bracket_count lx > 0 \<or> curl_count lx > 0
            then Inr (None, lx2)
            else Inr (Some (mk_token lx t n VNone), lx2))
      else if t = T_comment then
        Inr (None, lx1\<lparr>comments := comments lx @
               [\<lparr>c_line_start = lx_line_start lx, c_lineno = lx_lineno lx, c_colno = col',
                 c_bytespan = (int (loc lx), int (loc lx + n)), c_text = match_text\<rparr>]\<rparr>)
      else if t = T_id then
        (case map_of lex_keywords match_text of
           Some keyword \<Rightarrow> Inr (Some (mk_token lx keyword n VNone), lx1)
         | None \<Rightarrow>
             Inr (Some (mk_token lx t n (VStr match_text)),
                   if match_text \<in> set future_keywords
                   then lx1\<lparr>warnings := warnings lx @
                          [''Identifier '' @ [squote] @ match_text @ [squote]
                           @ '' will become a reserved keyword in a future release. Please rename it.'']\<rparr>
                   else lx1))
      else Inr (Some (mk_token lx t n VNone), lx1))"

text \<open>
  One round of \<open>while loc < len(self.code)\<close>: the first pattern that matches decides; with
  no match the lexer raises.
\<close>

definition lex_step :: "lexer \<Rightarrow> error + (token option \<times> lexer)" where
  "lex_step lx =
     (case first_match token_specification (drop (loc lx) (code lx)) of
        None \<Rightarrow>
          Inl (ParseException ''lexer'' (getline (code lx) (lx_line_start lx)) (lx_lineno lx) (col lx))
      | Some (t, n) \<Rightarrow> lex_matched lx t n)"

lemma lit_pos: "lit p r = Some n \<Longrightarrow> 0 < n"
  by (auto simp: lit_def split: if_splits)

lemma first_match_pos_aux:
  "list_all (\<lambda>tm. \<forall>r n. snd tm r = Some n \<longrightarrow> 0 < n) spec \<Longrightarrow>
   first_match spec r = Some (t, n) \<Longrightarrow> 0 < n"
  by (induction spec r rule: first_match.induct) (auto split: option.splits)

lemma re_pos:
  "re_ignore r = Some n \<Longrightarrow> 0 < n"
  "re_multiline_fstring r = Some n \<Longrightarrow> 0 < n"
  "re_multiline_string r = Some n \<Longrightarrow> 0 < n"
  "re_fstring r = Some n \<Longrightarrow> 0 < n"
  "re_string r = Some n \<Longrightarrow> 0 < n"
  "re_id r = Some n \<Longrightarrow> 0 < n"
  "re_number r = Some n \<Longrightarrow> 0 < n"
  "re_comment r = Some n \<Longrightarrow> 0 < n"
  by (auto simp: re_ignore_def re_multiline_fstring_def
      re_multiline_string_def re_fstring_def re_string_def re_id_def re_number_def
      re_prefixed_def re_comment_def
      split: list.splits if_splits option.splits)

lemma token_specification_pos:
  "list_all (\<lambda>tm. \<forall>r n. snd tm r = Some n \<longrightarrow> 0 < n) token_specification"
  unfolding token_specification_def
  by (simp add: re_pos lit_pos)

lemma first_match_pos: "first_match token_specification r = Some (t, n) \<Longrightarrow> 0 < n"
  using first_match_pos_aux [OF token_specification_pos] .

lemma lex_step_advances:
  "lex_step lx = Inr (r, lx') \<Longrightarrow> loc lx < loc lx' \<and> code lx' = code lx"
proof -
  assume a: "lex_step lx = Inr (r, lx')"
  then obtain t n where m: "first_match token_specification (drop (loc lx) (code lx)) = Some (t, n)"
    by (auto simp: lex_step_def split: option.splits)
  then have "0 < n" by (rule first_match_pos)
  with a m show ?thesis
    unfolding lex_step_def lex_matched_def Let_def
    by (simp split: if_splits sum.splits option.splits) auto
qed

text \<open>
  \<open>next(self.stream)\<close>: the generator runs until it yields a token, raises, or the text
  is used up (\<open>None\<close>, Python's \<open>StopIteration\<close>).
\<close>

function lex_next :: "lexer \<Rightarrow> error + (token option \<times> lexer)" where
  "lex_next lx =
     (if loc lx < length (code lx) then
        (case lex_step lx of
           Inl e \<Rightarrow> Inl e
         | Inr (Some t, lx') \<Rightarrow> Inr (Some t, lx')
         | Inr (None, lx') \<Rightarrow> lex_next lx')
      else Inr (None, lx))"
  by pat_completeness auto
termination
proof (relation "measure (\<lambda>lx. length (code lx) - loc lx)")
  show "wf (measure (\<lambda>lx. length (code lx) - loc lx))" by simp
next
  fix lx :: lexer and b x1 and lx' :: lexer
  assume "loc lx < length (code lx)" and "lex_step lx = Inr b" and "(x1, lx') = b" and "x1 = None"
  then have "lex_step lx = Inr (None, lx')" by simp
  from lex_step_advances [OF this] \<open>loc lx < length (code lx)\<close>
  show "(lx', lx) \<in> measure (\<lambda>lx. length (code lx) - loc lx)" by auto
qed

declare lex_next.simps [simp del]

section \<open>The syntax tree\<close>

text \<open>
  \<open>BaseNode\<close>: the position fields every node carries. A Python node is an object with an
  identity; \<open>nid\<close> is that identity. The one attribute the parser changes after a node
  is built, \<open>bytespan\<close>, is kept in a store of the parser, under \<open>nid\<close>; the comment
  lists are filled after parsing and are kept there too. The visitor attributes
  (\<open>level\<close>, \<open>ast_id\<close>, \<open>condition_level\<close>) are not used by this code.
\<close>

record base =
  nid :: nat
  n_lineno :: int
  n_colno :: int
  n_filename :: string
  end_lineno :: int
  end_colno :: int

text \<open>
  One constructor per node class. \<open>ArgumentNode\<close> holds \<open>arguments\<close>, \<open>commas\<close>,
  \<open>kwargs\<close> (an insertion-ordered dictionary keyed by node identity: a list of pairs)
  and \<open>order_error\<close>. \<open>IfClauseNode\<close> holds \<open>ifs\<close> and \<open>elseblock\<close>, which is
  \<open>None\<close> until \<open>ifblock\<close> assigns it.
\<close>

datatype node =
    BooleanNode base bool
  | IdNode base string
  | NumberNode base int
  | StringNode base string
  | FormatStringNode base string
  | MultilineFormatStringNode base string
  | ContinueNode base tvalue
  | BreakNode base tvalue
  | ArgumentNode base "node list" "token list" "(node \<times> node) list" bool
  | ArrayNode base node
  | DictNode base node
  | EmptyNode base
  | OrNode base node node
  | AndNode base node node
  | ComparisonNode base string node node
  | ArithmeticNode base string node node
  | NotNode base node
  | CodeBlockNode base "node list"
  | IndexNode base node node
  | MethodNode base node string node
  | FunctionNode base string node
  | AssignmentNode base string node
  | PlusAssignmentNode base string node
  | ForeachClauseNode base "string list" node node
  | IfNode base node node
  | IfClauseNode base "node list" "node option"
  | ParenthesizedNode base node
  | UMinusNode base node
  | TernaryNode base node node node

fun base_of :: "node \<Rightarrow> base" where
  "base_of (BooleanNode b _) = b"
| "base_of (IdNode b _) = b"
| "base_of (NumberNode b _) = b"
| "base_of (StringNode b _) = b"
| "base_of (FormatStringNode b _) = b"
| "base_of (MultilineFormatStringNode b _) = b"
| "base_of (ContinueNode b _) = b"
| "base_of (BreakNode b _) = b"
| "base_of (ArgumentNode b _ _ _ _) = b"
| "base_of (ArrayNode b _) = b"
| "base_of (DictNode b _) = b"
| "base_of (EmptyNode b) = b"
| "base_of (OrNode b _ _) = b"
| "base_of (AndNode b _ _) = b"
| "base_of (ComparisonNode b _ _ _) = b"
| "base_of (ArithmeticNode b _ _ _) = b"
| "base_of (NotNode b _) = b"
| "base_of (CodeBlockNode b _) = b"
| "base_of (IndexNode b _ _) = b"
| "base_of (MethodNode b _ _ _) = b"
| "base_of (FunctionNode b _ _) = b"
| "base_of (AssignmentNode b _ _) = b"
| "base_of (PlusAssignmentNode b _ _) = b"
| "base_of (ForeachClauseNode b _ _ _) = b"
| "base_of (IfNode b _ _) = b"
| "base_of (IfClauseNode b _ _) = b"
| "base_of (ParenthesizedNode b _) = b"
| "base_of (UMinusNode b _) = b"
| "base_of (TernaryNode b _ _ _) = b"

text \<open>\<open>type(self).__name__\<close>\<close>

fun class_name :: "node \<Rightarrow> string" where
  "class_name (BooleanNode _ _) = ''BooleanNode''"
| "class_name (IdNode _ _) = ''IdNode''"
| "class_name (NumberNode _ _) = ''NumberNode''"
| "class_name (StringNode _ _) = ''StringNode''"
| "class_name (FormatStringNode _ _) = ''FormatStringNode''"
| "class_name (MultilineFormatStringNode _ _) = ''MultilineFormatStringNode''"
| "class_name (ContinueNode _ _) = ''ContinueNode''"
| "class_name (BreakNode _ _) = ''BreakNode''"
| "class_name (ArgumentNode _ _ _ _ _) = ''ArgumentNode''"
| "class_name (ArrayNode _ _) = ''ArrayNode''"
| "class_name (DictNode _ _) = ''DictNode''"
| "class_name (EmptyNode _) = ''EmptyNode''"
| "class_name (OrNode _ _ _) = ''OrNode''"
| "class_name (AndNode _ _ _) = ''AndNode''"
| "class_name (ComparisonNode _ _ _ _) = ''ComparisonNode''"
| "class_name (ArithmeticNode _ _ _ _) = ''ArithmeticNode''"
| "class_name (NotNode _ _) = ''NotNode''"
| "class_name (CodeBlockNode _ _) = ''CodeBlockNode''"
| "class_name (IndexNode _ _ _) = ''IndexNode''"
| "class_name (MethodNode _ _ _ _) = ''MethodNode''"
| "class_name (FunctionNode _ _ _) = ''FunctionNode''"
| "class_name (AssignmentNode _ _ _) = ''AssignmentNode''"
| "class_name (PlusAssignmentNode _ _ _) = ''PlusAssignmentNode''"
| "class_name (ForeachClauseNode _ _ _ _) = ''ForeachClauseNode''"
| "class_name (IfNode _ _ _) = ''IfNode''"
| "class_name (IfClauseNode _ _ _) = ''IfClauseNode''"
| "class_name (ParenthesizedNode _ _) = ''ParenthesizedNode''"
| "class_name (UMinusNode _ _) = ''UMinusNode''"
| "class_name (TernaryNode _ _ _ _) = ''TernaryNode''"

text \<open>\<open>isinstance(n, IdNode)\<close> and \<open>isinstance(n, EmptyNode)\<close>: neither class has subclasses.\<close>

definition is_IdNode :: "node \<Rightarrow> bool" where
  "is_IdNode n = (class_name n = ''IdNode'')"

definition is_EmptyNode :: "node \<Rightarrow> bool" where
  "is_EmptyNode n = (class_name n = ''EmptyNode'')"

abbreviation lineno_of :: "node \<Rightarrow> int" where "lineno_of n \<equiv> n_lineno (base_of n)"
abbreviation colno_of :: "node \<Rightarrow> int" where "colno_of n \<equiv> n_colno (base_of n)"
abbreviation filename_of :: "node \<Rightarrow> string" where "filename_of n \<equiv> n_filename (base_of n)"
abbreviation nid_of :: "node \<Rightarrow> nat" where "nid_of n \<equiv> nid (base_of n)"

section \<open>The parser state\<close>

datatype placement = Pre_comments | Comments | Post_comments

text \<open>
  The fields of \<open>Parser\<close>. \<open>stack\<close> has its top at the head. \<open>nodes\<close> is the working
  set, a Python \<open>set\<close> of node objects: the identities, in the order they were first
  added. \<open>bytespans\<close> is the \<open>bytespan\<close> attribute of the nodes that have one,
  \<open>attached\<close> the comment lists of all nodes, \<open>next_id\<close> the next free identity.
\<close>

record parser =
  lexer :: lexer
  current :: token
  in_ternary :: bool
  stack :: "token list"
  nodes :: "nat list"
  bytespans :: "(nat \<times> (int \<times> int)) list"
  attached :: "(nat \<times> placement \<times> comment) list"
  next_id :: nat

type_synonym 'a pm = "parser \<Rightarrow> error + ('a \<times> parser)"

definition ret :: "'a \<Rightarrow> 'a pm" where
  "ret x = (\<lambda>s. Inr (x, s))"

definition raise :: "error \<Rightarrow> 'a pm" where
  "raise e = (\<lambda>s. Inl e)"

definition bind_p :: "'a pm \<Rightarrow> ('a \<Rightarrow> 'b pm) \<Rightarrow> 'b pm" where
  "bind_p m f = (\<lambda>s. case m s of Inl e \<Rightarrow> Inl e | Inr (x, s') \<Rightarrow> f x s')"

definition seq_p :: "unit pm \<Rightarrow> 'b pm \<Rightarrow> 'b pm" where
  "seq_p m n = bind_p m (\<lambda>_. n)"

definition get_current :: "token pm" where
  "get_current = (\<lambda>s. Inr (current s, s))"

text \<open>\<open>node.bytespan = sp\<close>\<close>

fun set_span :: "nat \<Rightarrow> int \<times> int \<Rightarrow> (nat \<times> (int \<times> int)) list \<Rightarrow> (nat \<times> (int \<times> int)) list" where
  "set_span i sp [] = [(i, sp)]"
| "set_span i sp ((j, q) # r) = (if i = j then (j, sp) # r else (j, q) # set_span i sp r)"

text \<open>\<open>Parser.begin\<close>\<close>

definition begin_p :: "unit pm" where
  "begin_p = (\<lambda>s. Inr ((), s\<lparr>stack := current s # stack s\<rparr>))"

text \<open>\<open>Parser.end\<close>\<close>

definition end_p :: "node \<Rightarrow> unit pm" where
  "end_p n = (\<lambda>s.
     case stack s of
       [] \<Rightarrow> Inl AssertionError
     | tok # rest \<Rightarrow>
         Inr ((), s\<lparr>stack := rest,
                    bytespans := set_span (nid_of n) (fst (bytespan tok), fst (bytespan (current s)))
                                   (bytespans s),
                    nodes := (if nid_of n \<in> set (nodes s) then nodes s else nodes s @ [nid_of n])\<rparr>))"

text \<open>The token \<open>getsym\<close> makes when the stream is used up.\<close>

definition eof_token :: "token \<Rightarrow> token" where
  "eof_token cur =
     \<lparr>tid = T_eof, filename = [], line_start = line_start cur, lineno = lineno cur,
      colno = colno cur + snd (bytespan cur) - fst (bytespan cur),
      bytespan = (0, 0), tvalue = VNone\<rparr>"

text \<open>\<open>Parser.getsym\<close>\<close>

definition getsym :: "unit pm" where
  "getsym = (\<lambda>s.
     case lex_next (lexer s) of
       Inl e \<Rightarrow> Inl e
     | Inr (Some t, lx) \<Rightarrow> Inr ((), s\<lparr>lexer := lx, current := t\<rparr>)
     | Inr (None, lx) \<Rightarrow> Inr ((), s\<lparr>lexer := lx, current := eof_token (current s)\<rparr>))"

text \<open>\<open>Parser.accept\<close>\<close>

definition accept :: "tid \<Rightarrow> bool pm" where
  "accept t = (\<lambda>s. if tid (current s) = t then seq_p getsym (ret True) s else Inr (False, s))"

text \<open>\<open>Parser.accept_any\<close>; the empty string it answers when nothing is accepted is \<open>None\<close>.\<close>

definition accept_any :: "tid list \<Rightarrow> tid option pm" where
  "accept_any tids = (\<lambda>s.
     if tid (current s) \<in> set tids then seq_p getsym (ret (Some (tid (current s)))) s
     else Inr (None, s))"

text \<open>A raise with the current source line: \<open>ParseException(text, self.getline(), l, c)\<close>.\<close>

definition parse_error :: "string \<Rightarrow> int \<Rightarrow> int \<Rightarrow> 'a pm" where
  "parse_error text l c =
     (\<lambda>s. Inl (ParseException text (getline (code (lexer s)) (line_start (current s))) l c))"

text \<open>\<open>Parser.expect\<close>\<close>

definition expect :: "tid \<Rightarrow> unit pm" where
  "expect t =
     bind_p (accept t) (\<lambda>ok.
       if ok then ret ()
       else (\<lambda>s. parse_error (''Expecting '' @ tid_str t @ '' got '' @ tid_str (tid (current s)) @ ''.'')
                   (lineno (current s)) (colno (current s)) s))"

text \<open>\<open>Parser.block_expect\<close>\<close>

definition block_expect :: "tid \<Rightarrow> token \<Rightarrow> unit pm" where
  "block_expect t block_start =
     bind_p (accept t) (\<lambda>ok.
       if ok then ret ()
       else (\<lambda>s. Inl (BlockParseException (''Expecting '' @ tid_str t @ '' got '' @ tid_str (tid (current s)) @ ''.'')
                        (getline (code (lexer s)) (line_start (current s)))
                        (lineno (current s)) (colno (current s))
                        (getline (code (lexer s)) (line_start block_start))
                        (lineno block_start) (colno block_start))))"

text \<open>
  \<open>BaseNode.__init__\<close>: a new object with its position; \<open>end_lineno\<close> and \<open>end_colno\<close>
  default to the start.
\<close>

definition new_base :: "int \<Rightarrow> int \<Rightarrow> string \<Rightarrow> int option \<Rightarrow> int option \<Rightarrow> base pm" where
  "new_base l c f el ec = (\<lambda>s.
     Inr (\<lparr>nid = next_id s, n_lineno = l, n_colno = c, n_filename = f,
           end_lineno = (case el of None \<Rightarrow> l | Some e \<Rightarrow> e),
           end_colno = (case ec of None \<Rightarrow> c | Some e \<Rightarrow> e)\<rparr>,
          s\<lparr>next_id := Suc (next_id s)\<rparr>))"

text \<open>\<open>ElementaryNode.__init__\<close>: the base of the token, and \<open>self.bytespan = token.bytespan\<close>.\<close>

definition elementary_base :: "token \<Rightarrow> base pm" where
  "elementary_base t =
     bind_p (new_base (lineno t) (colno t) (filename t) None None) (\<lambda>b s.
       Inr (b, s\<lparr>bytespans := set_span (nid b) (bytespan t) (bytespans s)\<rparr>))"

section \<open>Argument lists\<close>

text \<open>\<open>mlog.warning(message, ...)\<close>\<close>

definition warn :: "string \<Rightarrow> unit pm" where
  "warn m = (\<lambda>s. Inr ((), s\<lparr>lexer := (lexer s)\<lparr>warnings := warnings (lexer s) @ [m]\<rparr>\<rparr>))"

text \<open>\<open>d[key] = value\<close> on a dictionary keyed by object identity.\<close>

fun dict_set :: "node \<Rightarrow> node \<Rightarrow> (node \<times> node) list \<Rightarrow> (node \<times> node) list" where
  "dict_set k v [] = [(k, v)]"
| "dict_set k v ((k', v') # r) =
     (if nid_of k = nid_of k' then (k', v) # r else (k', v') # dict_set k v r)"

text \<open>\<open>ArgumentNode.append\<close>\<close>

definition arg_append :: "node \<Rightarrow> node \<Rightarrow> node" where
  "arg_append a statement =
     (case a of
        ArgumentNode b arguments commas kwargs order_error \<Rightarrow>
          ArgumentNode b (if is_EmptyNode statement then arguments else arguments @ [statement])
            commas kwargs (if length kwargs > 0 then True else order_error)
      | _ \<Rightarrow> a)"

text \<open>\<open>a.commas.append(potential)\<close>\<close>

definition add_comma :: "node \<Rightarrow> token \<Rightarrow> node" where
  "add_comma a potential =
     (case a of
        ArgumentNode b arguments commas kwargs order_error \<Rightarrow>
          ArgumentNode b arguments (commas @ [potential]) kwargs order_error
      | _ \<Rightarrow> a)"

text \<open>\<open>ArgumentNode.set_kwarg_no_check\<close>\<close>

definition set_kwarg_no_check :: "node \<Rightarrow> node \<Rightarrow> node \<Rightarrow> node" where
  "set_kwarg_no_check a name v =
     (case a of
        ArgumentNode b arguments commas kwargs order_error \<Rightarrow>
          ArgumentNode b arguments commas (dict_set name v kwargs) order_error
      | _ \<Rightarrow> a)"

text \<open>\<open>isinstance(x, IdNode) and name.value == x.value\<close>, for a name with value \<open>nv\<close>.\<close>

definition same_key :: "string \<Rightarrow> node \<Rightarrow> bool" where
  "same_key nv x = (case x of IdNode _ xv \<Rightarrow> nv = xv | _ \<Rightarrow> False)"

definition duplicate_warning :: "string \<Rightarrow> string" where
  "duplicate_warning nv = ''Keyword argument '' @ [dquote] @ nv @ [dquote] @ '' defined multiple times.''"

text \<open>\<open>ArgumentNode.set_kwarg\<close>; the caller has checked that \<open>name\<close> is an \<open>IdNode\<close>.\<close>

definition set_kwarg :: "node \<Rightarrow> node \<Rightarrow> node \<Rightarrow> node pm" where
  "set_kwarg a name v =
     (case (a, name) of
        (ArgumentNode b arguments commas kwargs order_error, IdNode _ nv) \<Rightarrow>
          seq_p (if list_ex (\<lambda>kv. same_key nv (fst kv)) kwargs
                 then seq_p (warn (duplicate_warning nv))
                            (warn ''This will be an error in future Meson releases.'')
                 else ret ())
                (ret (set_kwarg_no_check a name v))
      | _ \<Rightarrow> raise AssertionError)"

section \<open>The grammar rules\<close>

text \<open>
  The rules of \<open>Parser\<close> call each other; \<open>call\<close> names a rule with its arguments, and
  every rule takes the function \<open>rec\<close> that runs a call. A \<open>while\<close> loop of a rule is a
  call of its own, with the loop's variables as arguments.
\<close>

datatype call =
    Statement | E1 | E2 | E2_loop node bool | E3 | E3_loop node bool | E4 | E5
  | E5addsub | E5addsub_loop node | E5muldiv | E5muldiv_loop node | E6 | E7 | E7_loop node
  | E8 | E9 | Key_values | Key_values_loop node node | Args | Args_loop node node
  | Method_call node | Index_call node | Foreachblock | Ifblock | Elseifblock node
  | Elseblock | Line | Codeblock | Codeblock_loop node

text \<open>\<open>self.end(x); return x\<close>\<close>

definition finish :: "node \<Rightarrow> node pm" where
  "finish x = seq_p (end_p x) (ret x)"

text \<open>\<open>super().__init__(n.lineno, n.colno, n.filename)\<close> and the same for a token.\<close>

definition node_base :: "node \<Rightarrow> base pm" where
  "node_base n = new_base (lineno_of n) (colno_of n) (filename_of n) None None"

definition token_base :: "token \<Rightarrow> base pm" where
  "token_base t = new_base (lineno t) (colno t) (filename t) None None"

definition comparison_map :: "(tid \<times> string) list" where
  "comparison_map =
     [(T_equal, ''==''), (T_nequal, ''!=''), (T_lt, ''<''), (T_le, ''<=''),
      (T_gt, ''>''), (T_ge, ''>=''), (T_in, ''in''), (T_notin, ''not in'')]"

text \<open>Reading and writing \<open>self.in_ternary\<close>.\<close>

definition get_in_ternary :: "bool pm" where
  "get_in_ternary = (\<lambda>s. Inr (in_ternary s, s))"

definition set_in_ternary :: "bool \<Rightarrow> unit pm" where
  "set_in_ternary v = (\<lambda>s. Inr ((), s\<lparr>in_ternary := v\<rparr>))"

definition statement :: "(call \<Rightarrow> node pm) \<Rightarrow> node pm" where
  "statement rec = seq_p begin_p (bind_p (rec E1) (\<lambda>e. finish e))"

definition e1 :: "(call \<Rightarrow> node pm) \<Rightarrow> node pm" where
  "e1 rec =
     seq_p begin_p (bind_p (rec E2) (\<lambda>left.
     bind_p (accept T_plusassign) (\<lambda>is_plusassign.
     if is_plusassign then
       bind_p (rec E1) (\<lambda>v.
       case left of
         IdNode _ name \<Rightarrow>
           bind_p (node_base left) (\<lambda>b. finish (PlusAssignmentNode b name v))
       | _ \<Rightarrow> parse_error ''Plusassignment target must be an id.'' (lineno_of left) (colno_of left))
     else
     bind_p (accept T_assign) (\<lambda>is_assign.
     if is_assign then
       bind_p (rec E1) (\<lambda>v.
       case left of
         IdNode _ name \<Rightarrow>
           bind_p (node_base left) (\<lambda>b. finish (AssignmentNode b name v))
       | _ \<Rightarrow> parse_error ''Assignment target must be an id.'' (lineno_of left) (colno_of left))
     else
     bind_p (accept T_questionmark) (\<lambda>is_questionmark.
     if is_questionmark then
       bind_p get_in_ternary (\<lambda>inside.
       if inside
       then parse_error ''Nested ternary operators are not allowed.''
              (lineno_of left) (colno_of left)
       else
         seq_p (set_in_ternary True) (
         bind_p (rec E1) (\<lambda>trueblock.
         seq_p (expect T_colon) (
         bind_p (rec E1) (\<lambda>falseblock.
         seq_p (set_in_ternary False) (
         bind_p (node_base left) (\<lambda>b. finish (TernaryNode b left trueblock falseblock))))))))
     else finish left)))))"

definition e2_loop :: "(call \<Rightarrow> node pm) \<Rightarrow> node \<Rightarrow> bool \<Rightarrow> node pm" where
  "e2_loop rec left started =
     bind_p (accept T_or) (\<lambda>again.
     if again then
       (if is_EmptyNode left
        then parse_error ''Invalid or clause.'' (lineno_of left) (colno_of left)
        else
          bind_p (rec E3) (\<lambda>right.
          bind_p (node_base left) (\<lambda>b.
          seq_p (end_p (OrNode b left right)) (
          seq_p begin_p (rec (E2_loop (OrNode b left right) False))))))
     else seq_p (if \<not> started then end_p left else ret ()) (ret left))"

definition e2 :: "(call \<Rightarrow> node pm) \<Rightarrow> node pm" where
  "e2 rec = seq_p begin_p (bind_p (rec E3) (\<lambda>left. rec (E2_loop left False)))"

definition e3_loop :: "(call \<Rightarrow> node pm) \<Rightarrow> node \<Rightarrow> bool \<Rightarrow> node pm" where
  "e3_loop rec left started =
     bind_p (accept T_and) (\<lambda>again.
     if again then
       (if is_EmptyNode left
        then parse_error ''Invalid and clause.'' (lineno_of left) (colno_of left)
        else
          bind_p (rec E4) (\<lambda>right.
          bind_p (node_base left) (\<lambda>b.
          seq_p (end_p (AndNode b left right)) (
          seq_p begin_p (rec (E3_loop (AndNode b left right) False))))))
     else seq_p (if \<not> started then end_p left else ret ()) (ret left))"

definition e3 :: "(call \<Rightarrow> node pm) \<Rightarrow> node pm" where
  "e3 rec = seq_p begin_p (bind_p (rec E4) (\<lambda>left. rec (E3_loop left False)))"

text \<open>
  \<open>for nodename, operator_type in comparison_map.items(): if self.accept(nodename)\<close>: the
  operator type of the first entry that is accepted.
\<close>

fun accept_first :: "(tid \<times> string) list \<Rightarrow> string option pm" where
  "accept_first [] = ret None"
| "accept_first ((nodename, operator_type) # m) =
     bind_p (accept nodename) (\<lambda>ok. if ok then ret (Some operator_type) else accept_first m)"

definition e4 :: "(call \<Rightarrow> node pm) \<Rightarrow> node pm" where
  "e4 rec =
     seq_p begin_p (bind_p (rec E5) (\<lambda>left.
     bind_p (accept_first comparison_map) (\<lambda>found.
     case found of
       Some operator_type \<Rightarrow>
         bind_p (rec E5) (\<lambda>right.
         bind_p (node_base left) (\<lambda>b. finish (ComparisonNode b operator_type left right)))
     | None \<Rightarrow>
         bind_p (accept T_not) (\<lambda>is_not.
         bind_p (if is_not then accept T_in else ret False) (\<lambda>is_not_in.
         if is_not_in then
           bind_p (rec E5) (\<lambda>right.
           bind_p (node_base left) (\<lambda>b. finish (ComparisonNode b ''notin'' left right)))
         else finish left)))))"

definition e5 :: "(call \<Rightarrow> node pm) \<Rightarrow> node pm" where
  "e5 rec = rec E5addsub"

text \<open>
  The \<open>op_map\<close> of \<open>e5addsub\<close> and of \<open>e5muldiv\<close>. The two rules have the same loop,
  \<open>arith_loop\<close>, over their map, their operand rule and their own loop call; \<open>op\<close> is
  one of the keys of the map.
\<close>

definition addsub_map :: "(tid \<times> string) list" where
  "addsub_map = [(T_plus, ''add''), (T_dash, ''sub'')]"

definition muldiv_map :: "(tid \<times> string) list" where
  "muldiv_map = [(T_percent, ''mod''), (T_star, ''mul''), (T_fslash, ''div'')]"

definition arith_loop ::
  "(call \<Rightarrow> node pm) \<Rightarrow> (tid \<times> string) list \<Rightarrow> call \<Rightarrow> (node \<Rightarrow> call) \<Rightarrow> node \<Rightarrow> node pm" where
  "arith_loop rec op_map operand again left =
     bind_p (accept_any (map fst op_map)) (\<lambda>accepted.
     case accepted of
       Some op \<Rightarrow>
         (case map_of op_map op of
            None \<Rightarrow> raise (KeyError (tid_str op))
          | Some operation \<Rightarrow>
              bind_p (rec operand) (\<lambda>right.
              bind_p (node_base left) (\<lambda>b.
              seq_p (end_p (ArithmeticNode b operation left right)) (
              seq_p begin_p (rec (again (ArithmeticNode b operation left right)))))))
     | None \<Rightarrow> finish left)"

definition e5addsub_loop :: "(call \<Rightarrow> node pm) \<Rightarrow> node \<Rightarrow> node pm" where
  "e5addsub_loop rec left = arith_loop rec addsub_map E5muldiv E5addsub_loop left"

definition e5addsub :: "(call \<Rightarrow> node pm) \<Rightarrow> node pm" where
  "e5addsub rec = seq_p begin_p (bind_p (rec E5muldiv) (\<lambda>left. rec (E5addsub_loop left)))"

definition e5muldiv_loop :: "(call \<Rightarrow> node pm) \<Rightarrow> node \<Rightarrow> node pm" where
  "e5muldiv_loop rec left = arith_loop rec muldiv_map E6 E5muldiv_loop left"

definition e5muldiv :: "(call \<Rightarrow> node pm) \<Rightarrow> node pm" where
  "e5muldiv rec = seq_p begin_p (bind_p (rec E6) (\<lambda>left. rec (E5muldiv_loop left)))"

definition e6 :: "(call \<Rightarrow> node pm) \<Rightarrow> node pm" where
  "e6 rec =
     seq_p begin_p (
     bind_p (accept T_not) (\<lambda>is_not.
     if is_not then
       bind_p get_current (\<lambda>t.
       bind_p (rec E7) (\<lambda>v.
       bind_p (token_base t) (\<lambda>b. finish (NotNode b v))))
     else
     bind_p (accept T_dash) (\<lambda>is_dash.
     if is_dash then
       bind_p get_current (\<lambda>t.
       bind_p (rec E7) (\<lambda>v.
       bind_p (token_base t) (\<lambda>b. finish (UMinusNode b v))))
     else bind_p (rec E7) (\<lambda>x2. finish x2))))"

definition e7_loop :: "(call \<Rightarrow> node pm) \<Rightarrow> node \<Rightarrow> node pm" where
  "e7_loop rec left =
     bind_p (accept T_dot) (\<lambda>is_dot.
     bind_p (if is_dot
             then bind_p (rec (Method_call left)) (\<lambda>x2.
                  seq_p (end_p left) (seq_p begin_p (ret x2)))
             else ret left) (\<lambda>left1.
     bind_p (accept T_lbracket) (\<lambda>is_lbracket.
     bind_p (if is_lbracket
             then bind_p (rec (Index_call left1)) (\<lambda>x3.
                  seq_p (end_p left1) (seq_p begin_p (ret x3)))
             else ret left1) (\<lambda>left2.
     if is_dot \<or> is_lbracket then rec (E7_loop left2) else finish left2))))"

definition e7 :: "(call \<Rightarrow> node pm) \<Rightarrow> node pm" where
  "e7 rec =
     seq_p begin_p (bind_p (rec E8) (\<lambda>left.
     bind_p get_current (\<lambda>block_start.
     bind_p (accept T_lparen) (\<lambda>is_lparen.
     if is_lparen then
       bind_p (rec Args) (\<lambda>args.
       seq_p (block_expect T_rparen block_start) (
       case left of
         IdNode _ func_name \<Rightarrow>
           bind_p get_current (\<lambda>cur.
           bind_p (new_base (lineno_of left) (colno_of left) (filename_of left)
                     (Some (lineno cur)) (Some (colno cur))) (\<lambda>b.
           seq_p (end_p left) (
           seq_p begin_p (rec (E7_loop (FunctionNode b func_name args))))))
       | _ \<Rightarrow> parse_error ''Function call must be applied to plain id''
                (lineno_of left) (colno_of left)))
     else rec (E7_loop left)))))"

definition e8 :: "(call \<Rightarrow> node pm) \<Rightarrow> node pm" where
  "e8 rec =
     seq_p begin_p (
     bind_p get_current (\<lambda>block_start.
     bind_p (accept T_lparen) (\<lambda>is_lparen.
     if is_lparen then
       bind_p (rec Statement) (\<lambda>e.
       seq_p (block_expect T_rparen block_start) (
       bind_p get_current (\<lambda>cur.
       bind_p (new_base (lineno block_start) (colno block_start) (filename_of e)
                 (Some (lineno cur)) (Some (colno cur))) (\<lambda>b.
       finish (ParenthesizedNode b e)))))
     else
     bind_p (accept T_lbracket) (\<lambda>is_lbracket.
     if is_lbracket then
       bind_p (rec Args) (\<lambda>args.
       seq_p (block_expect T_rbracket block_start) (
       bind_p get_current (\<lambda>cur.
       bind_p (new_base (lineno block_start) (colno block_start) (filename_of args)
                 (Some (lineno cur)) (Some (colno cur))) (\<lambda>b.
       finish (ArrayNode b args)))))
     else
     bind_p (accept T_lcurl) (\<lambda>is_lcurl.
     if is_lcurl then
       bind_p (rec Key_values) (\<lambda>key_values.
       seq_p (block_expect T_rcurl block_start) (
       bind_p get_current (\<lambda>cur.
       bind_p (new_base (lineno block_start) (colno block_start) (filename_of key_values)
                 (Some (lineno cur)) (Some (colno cur))) (\<lambda>b.
       finish (DictNode b key_values)))))
     else bind_p (rec E9) (\<lambda>x3. finish x3))))))"

text \<open>
  The literal nodes assert the type of the token's value; \<open>e9\<close> has set it for the
  boolean keywords (\<open>t.value = True\<close>).
\<close>

definition str_node :: "(base \<Rightarrow> string \<Rightarrow> node) \<Rightarrow> token \<Rightarrow> node pm" where
  "str_node mk t =
     bind_p (elementary_base t) (\<lambda>b.
     case tvalue t of VStr v \<Rightarrow> finish (mk b v) | _ \<Rightarrow> raise AssertionError)"

definition e9 :: "node pm" where
  "e9 =
     seq_p begin_p (
     bind_p get_current (\<lambda>t.
     bind_p (accept T_true) (\<lambda>is_true.
     if is_true then bind_p (elementary_base t) (\<lambda>b. finish (BooleanNode b True))
     else
     bind_p (accept T_false) (\<lambda>is_false.
     if is_false then bind_p (elementary_base t) (\<lambda>b. finish (BooleanNode b False))
     else
     bind_p (accept T_id) (\<lambda>is_id.
     if is_id then str_node IdNode t
     else
     bind_p (accept T_number) (\<lambda>is_number.
     if is_number then
       bind_p (elementary_base t) (\<lambda>b.
       case tvalue t of VInt v \<Rightarrow> finish (NumberNode b v) | _ \<Rightarrow> raise AssertionError)
     else
     bind_p (accept T_string) (\<lambda>is_string.
     if is_string then str_node StringNode t
     else
     bind_p (accept T_fstring) (\<lambda>is_fstring.
     if is_fstring then str_node FormatStringNode t
     else
     bind_p (accept T_multiline_fstring) (\<lambda>is_multiline_fstring.
     if is_multiline_fstring then str_node MultilineFormatStringNode t
     else
       bind_p get_current (\<lambda>cur.
       bind_p (token_base cur) (\<lambda>b. finish (EmptyNode b))))))))))))"

definition key_values_loop :: "(call \<Rightarrow> node pm) \<Rightarrow> node \<Rightarrow> node \<Rightarrow> node pm" where
  "key_values_loop rec s a =
     (if \<not> is_EmptyNode s then
        bind_p (accept T_colon) (\<lambda>is_colon.
        if is_colon then
          bind_p (rec Statement) (\<lambda>v.
          bind_p get_current (\<lambda>potential.
          bind_p (accept T_comma) (\<lambda>is_comma.
          if \<not> is_comma then finish (set_kwarg_no_check a s v)
          else
            bind_p (rec Statement) (\<lambda>s'.
            rec (Key_values_loop s' (add_comma (set_kwarg_no_check a s v) potential))))))
        else parse_error ''Only key:value pairs are valid in dict construction.''
               (lineno_of s) (colno_of s))
      else finish a)"

definition key_values :: "(call \<Rightarrow> node pm) \<Rightarrow> node pm" where
  "key_values rec =
     seq_p begin_p (bind_p (rec Statement) (\<lambda>s.
     bind_p get_current (\<lambda>cur.
     bind_p (token_base cur) (\<lambda>b.
     rec (Key_values_loop s (ArgumentNode b [] [] [] False))))))"

definition args_loop :: "(call \<Rightarrow> node pm) \<Rightarrow> node \<Rightarrow> node \<Rightarrow> node pm" where
  "args_loop rec s a =
     (if \<not> is_EmptyNode s then
        bind_p get_current (\<lambda>potential.
        bind_p (accept T_comma) (\<lambda>is_comma.
        if is_comma then
          bind_p (rec Statement) (\<lambda>s'.
          rec (Args_loop s' (arg_append (add_comma a potential) s)))
        else
        bind_p (accept T_colon) (\<lambda>is_colon.
        if is_colon then
          (if \<not> is_IdNode s
           then parse_error ''Dictionary key must be a plain identifier.''
                  (lineno_of s) (colno_of s)
           else
             bind_p (rec Statement) (\<lambda>v.
             bind_p (set_kwarg a s v) (\<lambda>a1.
             bind_p get_current (\<lambda>potential1.
             bind_p (accept T_comma) (\<lambda>is_comma1.
             if \<not> is_comma1 then finish a1
             else
               bind_p (rec Statement) (\<lambda>s'.
               rec (Args_loop s' (add_comma a1 potential1))))))))
        else finish (arg_append a s))))
      else finish a)"

definition args :: "(call \<Rightarrow> node pm) \<Rightarrow> node pm" where
  "args rec =
     seq_p begin_p (bind_p (rec Statement) (\<lambda>s.
     bind_p get_current (\<lambda>cur.
     bind_p (token_base cur) (\<lambda>b.
     rec (Args_loop s (ArgumentNode b [] [] [] False))))))"

definition method_call :: "(call \<Rightarrow> node pm) \<Rightarrow> node \<Rightarrow> node pm" where
  "method_call rec source_object =
     seq_p begin_p (bind_p (rec E9) (\<lambda>methodname.
     case methodname of
       IdNode _ name \<Rightarrow>
         seq_p (expect T_lparen) (
         bind_p (rec Args) (\<lambda>args.
         seq_p (expect T_rparen) (
         bind_p (node_base methodname) (\<lambda>b.
         bind_p (accept T_dot) (\<lambda>is_dot.
         if is_dot
         then bind_p (rec (Method_call (MethodNode b source_object name args))) (\<lambda>x1. finish x1)
         else finish (MethodNode b source_object name args))))))
     | _ \<Rightarrow> (\<lambda>s. parse_error ''Method name must be plain id''
                    (lineno (current s)) (colno (current s)) s)))"

definition index_call :: "(call \<Rightarrow> node pm) \<Rightarrow> node \<Rightarrow> node pm" where
  "index_call rec source_object =
     seq_p begin_p (bind_p (rec Statement) (\<lambda>index_statement.
     seq_p (expect T_rbracket) (
     bind_p (node_base source_object) (\<lambda>b.
     finish (IndexNode b source_object index_statement)))))"

text \<open>\<open>t = self.current; self.expect('id'); assert isinstance(t.value, str)\<close>\<close>

definition expect_id :: "(token \<times> string) pm" where
  "expect_id =
     bind_p get_current (\<lambda>t.
     seq_p (expect T_id) (
     case tvalue t of VStr v \<Rightarrow> ret (t, v) | _ \<Rightarrow> raise AssertionError))"

definition foreachblock :: "(call \<Rightarrow> node pm) \<Rightarrow> node pm" where
  "foreachblock rec =
     seq_p begin_p (bind_p expect_id (\<lambda>(varname, v1).
     bind_p (accept T_comma) (\<lambda>is_comma.
     bind_p (if is_comma then bind_p expect_id (\<lambda>(t, v2). ret [v1, v2]) else ret [v1]) (\<lambda>varnames.
     seq_p (expect T_colon) (
     bind_p (rec Statement) (\<lambda>items.
     bind_p (rec Codeblock) (\<lambda>block.
     bind_p (token_base varname) (\<lambda>b.
     finish (ForeachClauseNode b varnames items block)))))))))"

text \<open>\<open>clause.ifs.append(i)\<close> and \<open>clause.elseblock = e\<close>\<close>

definition append_if :: "node \<Rightarrow> node \<Rightarrow> node" where
  "append_if clause i =
     (case clause of IfClauseNode b ifs elseblock \<Rightarrow> IfClauseNode b (ifs @ [i]) elseblock | _ \<Rightarrow> clause)"

definition set_elseblock :: "node \<Rightarrow> node \<Rightarrow> node" where
  "set_elseblock clause e =
     (case clause of IfClauseNode b ifs elseblock \<Rightarrow> IfClauseNode b ifs (Some e) | _ \<Rightarrow> clause)"

definition ifblock :: "(call \<Rightarrow> node pm) \<Rightarrow> node pm" where
  "ifblock rec =
     seq_p begin_p (bind_p (rec Statement) (\<lambda>condition.
     bind_p (node_base condition) (\<lambda>cb.
     seq_p (expect T_eol) (
     bind_p (rec Codeblock) (\<lambda>block.
     seq_p begin_p (
     bind_p (node_base (IfClauseNode cb [] None)) (\<lambda>ib.
     seq_p (end_p (IfNode ib condition block)) (
     bind_p (rec (Elseifblock (append_if (IfClauseNode cb [] None) (IfNode ib condition block)))) (\<lambda>clause.
     bind_p (rec Elseblock) (\<lambda>e.
     finish (set_elseblock clause e)))))))))))"

text \<open>\<open>elseifblock\<close> changes \<open>clause\<close> in place; the model answers the changed clause.\<close>

definition elseifblock :: "(call \<Rightarrow> node pm) \<Rightarrow> node \<Rightarrow> node pm" where
  "elseifblock rec clause =
     bind_p (accept T_elif) (\<lambda>is_elif.
     if is_elif then
       seq_p begin_p (
       bind_p (rec Statement) (\<lambda>s.
       seq_p (expect T_eol) (
       bind_p (rec Codeblock) (\<lambda>b.
       bind_p (node_base s) (\<lambda>ib.
       seq_p (end_p (IfNode ib s b)) (
       rec (Elseifblock (append_if clause (IfNode ib s b)))))))))
     else ret clause)"

definition elseblock :: "(call \<Rightarrow> node pm) \<Rightarrow> node pm" where
  "elseblock rec =
     bind_p (accept T_else) (\<lambda>is_else.
     if is_else then seq_p (expect T_eol) (rec Codeblock)
     else
       seq_p begin_p (
       bind_p get_current (\<lambda>cur.
       bind_p (token_base cur) (\<lambda>b. finish (EmptyNode b)))))"

definition line :: "(call \<Rightarrow> node pm) \<Rightarrow> node pm" where
  "line rec =
     bind_p get_current (\<lambda>block_start.
     seq_p begin_p (
     if tid block_start = T_eol then bind_p (token_base block_start) (\<lambda>b. finish (EmptyNode b))
     else
     bind_p (accept T_if) (\<lambda>is_if.
     if is_if then
       bind_p (rec Ifblock) (\<lambda>ifblock.
       seq_p (block_expect T_endif block_start) (finish ifblock))
     else
     bind_p (accept T_foreach) (\<lambda>is_foreach.
     if is_foreach then
       bind_p (rec Foreachblock) (\<lambda>forblock.
       seq_p (block_expect T_endforeach block_start) (finish forblock))
     else
     bind_p (accept T_continue) (\<lambda>is_continue.
     if is_continue then
       bind_p get_current (\<lambda>cur.
       bind_p (elementary_base cur) (\<lambda>b. finish (ContinueNode b (tvalue cur))))
     else
     bind_p (accept T_break) (\<lambda>is_break.
     if is_break then
       bind_p get_current (\<lambda>cur.
       bind_p (elementary_base cur) (\<lambda>b. finish (BreakNode b (tvalue cur))))
     else bind_p (rec Statement) (\<lambda>s. finish s)))))))"

text \<open>\<open>block.lines.append(curline)\<close>\<close>

definition append_line :: "node \<Rightarrow> node \<Rightarrow> node" where
  "append_line block curline =
     (case block of CodeBlockNode b lines \<Rightarrow> CodeBlockNode b (lines @ [curline]) | _ \<Rightarrow> block)"

definition codeblock_loop :: "(call \<Rightarrow> node pm) \<Rightarrow> node \<Rightarrow> node pm" where
  "codeblock_loop rec block =
     bind_p (rec Line) (\<lambda>curline.
     bind_p (accept T_eol) (\<lambda>cond.
     if cond
     then rec (Codeblock_loop (if \<not> is_EmptyNode curline then append_line block curline else block))
     else finish (if \<not> is_EmptyNode curline then append_line block curline else block)))"

definition codeblock :: "(call \<Rightarrow> node pm) \<Rightarrow> node pm" where
  "codeblock rec =
     seq_p begin_p (
     bind_p get_current (\<lambda>cur.
     bind_p (token_base cur) (\<lambda>b. rec (Codeblock_loop (CodeBlockNode b [])))))"

text \<open>Which rule a call runs.\<close>

definition dispatch :: "(call \<Rightarrow> node pm) \<Rightarrow> call \<Rightarrow> node pm" where
  "dispatch rec c =
     (case c of
        Statement \<Rightarrow> statement rec
      | E1 \<Rightarrow> e1 rec
      | E2 \<Rightarrow> e2 rec
      | E2_loop left started \<Rightarrow> e2_loop rec left started
      | E3 \<Rightarrow> e3 rec
      | E3_loop left started \<Rightarrow> e3_loop rec left started
      | E4 \<Rightarrow> e4 rec
      | E5 \<Rightarrow> e5 rec
      | E5addsub \<Rightarrow> e5addsub rec
      | E5addsub_loop left \<Rightarrow> e5addsub_loop rec left
      | E5muldiv \<Rightarrow> e5muldiv rec
      | E5muldiv_loop left \<Rightarrow> e5muldiv_loop rec left
      | E6 \<Rightarrow> e6 rec
      | E7 \<Rightarrow> e7 rec
      | E7_loop left \<Rightarrow> e7_loop rec left
      | E8 \<Rightarrow> e8 rec
      | E9 \<Rightarrow> e9
      | Key_values \<Rightarrow> key_values rec
      | Key_values_loop s a \<Rightarrow> key_values_loop rec s a
      | Args \<Rightarrow> args rec
      | Args_loop s a \<Rightarrow> args_loop rec s a
      | Method_call source_object \<Rightarrow> method_call rec source_object
      | Index_call source_object \<Rightarrow> index_call rec source_object
      | Foreachblock \<Rightarrow> foreachblock rec
      | Ifblock \<Rightarrow> ifblock rec
      | Elseifblock clause \<Rightarrow> elseifblock rec clause
      | Elseblock \<Rightarrow> elseblock rec
      | Line \<Rightarrow> line rec
      | Codeblock \<Rightarrow> codeblock rec
      | Codeblock_loop block \<Rightarrow> codeblock_loop rec block)"

text \<open>
  The parser proper: \<open>run n c\<close> runs call \<open>c\<close> with at most \<open>n\<close> nested calls and loop
  rounds below it.
\<close>

primrec run :: "nat \<Rightarrow> call \<Rightarrow> node pm" where
  "run 0 = (\<lambda>c. raise OutOfFuel)"
| "run (Suc n) = dispatch (run n)"

section \<open>Comment attachment\<close>

text \<open>
  One \<open>for n in self.nodes\<close> loop of \<open>attach_comment\<close>, over the identities and spans of
  the working set: \<open>skip\<close> is the test before \<open>continue\<close>, \<open>dist\<close> the distance; the
  answer is the final \<open>node\<close>. Python iterates a set in an order of its own; the model
  takes the order of the list.
\<close>

definition nearest ::
  "(int \<times> int \<Rightarrow> bool) \<Rightarrow> (int \<times> int \<Rightarrow> int) \<Rightarrow> (nat \<times> (int \<times> int)) list \<Rightarrow> nat option" where
  "nearest skip dist ns =
     snd (foldl (\<lambda>(smallest_distance, node) (n, sp).
                   if skip sp then (smallest_distance, node)
                   else if smallest_distance > dist sp then (dist sp, Some n)
                   else (smallest_distance, node))
                (100000000000, None) ns)"

text \<open>The three loops, for a comment with span \<open>c\<close>.\<close>

definition pass_enclosing :: "int \<times> int \<Rightarrow> (nat \<times> (int \<times> int)) list \<Rightarrow> nat option" where
  "pass_enclosing c ns = nearest (\<lambda>n. fst n > fst c \<or> snd n < fst c) (\<lambda>n. snd n - fst n) ns"

definition pass_before :: "int \<times> int \<Rightarrow> (nat \<times> (int \<times> int)) list \<Rightarrow> nat option" where
  "pass_before c ns = nearest (\<lambda>n. fst n > fst c) (\<lambda>n. snd n - fst c) ns"

definition pass_after :: "int \<times> int \<Rightarrow> (nat \<times> (int \<times> int)) list \<Rightarrow> nat option" where
  "pass_after c ns = nearest (\<lambda>n. snd c < fst n) (\<lambda>n. snd c - fst n) ns"

text \<open>
  Where the comment goes: the node and the list it is appended to, or the failed
  \<open>assert node is not None\<close>.
\<close>

definition choose_node :: "int \<times> int \<Rightarrow> (nat \<times> (int \<times> int)) list \<Rightarrow> error + (nat \<times> placement)" where
  "choose_node c ns =
     (case pass_enclosing c ns of
        Some n \<Rightarrow> Inr (n, Comments)
      | None \<Rightarrow>
     (case pass_before c ns of
        Some n \<Rightarrow> Inr (n, Pre_comments)
      | None \<Rightarrow>
     (case pass_after c ns of
        Some n \<Rightarrow> Inr (n, Post_comments)
      | None \<Rightarrow> Inl AssertionError)))"

text \<open>The working set with the \<open>bytespan\<close> of each node; reading a missing one is a \<open>TypeError\<close>.\<close>

fun node_spans :: "(nat \<times> (int \<times> int)) list \<Rightarrow> nat list \<Rightarrow> error + (nat \<times> (int \<times> int)) list" where
  "node_spans bs [] = Inr []"
| "node_spans bs (n # ns) =
     (case map_of bs n of
        None \<Rightarrow> Inl TypeError
      | Some sp \<Rightarrow> (case node_spans bs ns of Inl e \<Rightarrow> Inl e | Inr r \<Rightarrow> Inr ((n, sp) # r)))"

text \<open>\<open>Parser.attach_comment\<close>\<close>

definition attach_comment :: "comment \<Rightarrow> parser \<Rightarrow> error + parser" where
  "attach_comment c s =
     (if length (nodes s) = 0 then Inr s
      else case node_spans (bytespans s) (nodes s) of
             Inl e \<Rightarrow> Inl e
           | Inr ns \<Rightarrow>
               (case choose_node (c_bytespan c) ns of
                  Inl e \<Rightarrow> Inl e
                | Inr (n, place) \<Rightarrow> Inr (s\<lparr>attached := attached s @ [(n, place, c)]\<rparr>)))"

fun attach_comments :: "comment list \<Rightarrow> parser \<Rightarrow> error + parser" where
  "attach_comments [] s = Inr s"
| "attach_comments (c # cs) s =
     (case attach_comment c s of Inl e \<Rightarrow> Inl e | Inr s' \<Rightarrow> attach_comments cs s')"

section \<open>Parsing a text\<close>

text \<open>\<open>Lexer.__init__\<close> with the first values of the locals of \<open>lex\<close>.\<close>

definition lexer_init :: "string \<Rightarrow> string \<Rightarrow> lexer" where
  "lexer_init c f =
     \<lparr>code = c, lx_filename = f, lx_line_start = 0, lx_lineno = 1, loc = 0,
      par_count = 0, bracket_count = 0, curl_count = 0, col = 0, comments = [], warnings = []\<rparr>"

text \<open>\<open>Parser.__init__\<close>; the first \<open>getsym\<close> may already raise.\<close>

definition parser_init :: "string \<Rightarrow> string \<Rightarrow> error + parser" where
  "parser_init c f =
     (case getsym \<lparr>lexer = lexer_init c f,
                   current = \<lparr>tid = T_eof, filename = [], line_start = 0, lineno = 0, colno = 0,
                               bytespan = (0, 0), tvalue = VNone\<rparr>,
                   in_ternary = False, stack = [], nodes = [], bytespans = [], attached = [],
                   next_id = 0\<rparr> of
        Inl e \<Rightarrow> Inl e
      | Inr (u, s) \<Rightarrow> Inr (s\<lparr>in_ternary := False, stack := [], nodes := []\<rparr>))"

text \<open>
  \<open>Parser.parse\<close>, with \<open>fuel\<close> for the rules. The tokens left on the stack are printed
  before the assertion; printing is not modelled.
\<close>

definition parse :: "nat \<Rightarrow> node pm" where
  "parse fuel =
     bind_p (run fuel Codeblock) (\<lambda>block.
     seq_p (expect T_eof) (\<lambda>s.
       if length (stack s) \<noteq> 0 then Inl AssertionError
       else (case attach_comments (comments (lexer s)) s of
               Inl e \<Rightarrow> Inl e
             | Inr s' \<Rightarrow> Inr (block, s'))))"

text \<open>\<open>mparser.Parser(code, filename).parse()\<close>\<close>

definition parse_text :: "nat \<Rightarrow> string \<Rightarrow> string \<Rightarrow> error + (node \<times> parser)" where
  "parse_text fuel c f = (case parser_init c f of Inl e \<Rightarrow> Inl e | Inr s \<Rightarrow> parse fuel s)"

section \<open>The fixed-style formatter\<close>

record formatter =
  lines :: "string list"
  indentstr :: string
  currindent :: string
  currline :: string

text \<open>\<open>AstFormatter.__init__\<close>\<close>

definition formatter_init :: formatter where
  "formatter_init = \<lparr>lines = [], indentstr = ''  '', currindent = [], currline = []\<rparr>"

text \<open>\<open>AstFormatter.end\<close>\<close>

definition fmt_end :: "formatter \<Rightarrow> formatter" where
  "fmt_end f = f\<lparr>lines := lines f @ [currline f]\<rparr>"

text \<open>\<open>AstFormatter.append\<close>\<close>

definition fmt_append :: "string \<Rightarrow> formatter \<Rightarrow> formatter" where
  "fmt_append to_append f = f\<lparr>currline := currline f @ to_append\<rparr>"

text \<open>\<open>AstFormatter.force_linebreak\<close>\<close>

definition force_linebreak :: "formatter \<Rightarrow> formatter" where
  "force_linebreak f = f\<lparr>lines := lines f @ [currline f], currline := currindent f\<rparr>"

text \<open>\<open>str.isspace\<close> on a code point below 256, and \<open>str.strip()\<close>.\<close>

definition py_isspace :: "char \<Rightarrow> bool" where
  "py_isspace c =
     (c \<in> set [CHR 0x09, CHR 0x0A, CHR 0x0B, CHR 0x0C, CHR 0x0D, CHR 0x1C, CHR 0x1D, CHR 0x1E,
                CHR 0x1F, CHR 0x20, CHR 0x85, CHR 0xA0])"

definition py_strip :: "string \<Rightarrow> string" where
  "py_strip s = rev (dropWhile py_isspace (rev (dropWhile py_isspace s)))"

text \<open>\<open>AstFormatter.eventual_linebreak\<close>\<close>

definition eventual_linebreak :: "formatter \<Rightarrow> formatter" where
  "eventual_linebreak f = (if length (py_strip (currline f)) \<noteq> 0 then force_linebreak f else f)"

text \<open>\<open>AstFormatter.escape\<close>\<close>

definition escape :: "string \<Rightarrow> string" where
  "escape val =
     concat (map (\<lambda>c. if c = squote then [bslash, squote]
                       else if c = bslash then [bslash, bslash]
                       else if c = nl then [bslash, CHR ''n'']
                       else [c]) val)"

definition arithmic_map :: "(string \<times> string) list" where
  "arithmic_map = [(''add'', ''+''), (''sub'', ''-''), (''mod'', ''%''), (''mul'', ''*''), (''div'', ''/'')]"

text \<open>
  \<open>re.sub(r', $', '', s)\<close>: \<open>$\<close> matches at the end of the text and before a newline that
  ends it, so at most one place matches.
\<close>

definition sub_trailing_comma :: "string \<Rightarrow> string" where
  "sub_trailing_comma s =
     (if 2 \<le> length s \<and> drop (length s - 2) s = '', '' then take (length s - 2) s
      else if 3 \<le> length s \<and> drop (length s - 3) s = [CHR '','', CHR '' '', nl]
        then take (length s - 3) s @ [nl]
      else s)"

text \<open>\<open>', '.join(varnames)\<close>\<close>

fun join_comma :: "string list \<Rightarrow> string" where
  "join_comma [] = []"
| "join_comma [x] = x"
| "join_comma (x # y # r) = x @ '', '' @ join_comma (y # r)"

text \<open>
  The \<open>visit_\<close> methods that \<open>AstFormatter\<close> defines, by name: what
  \<open>hasattr(visitor, fname)\<close> answers for an \<open>AstFormatter\<close>.

  Modelled from the spec: the base class \<open>AstVisitor\<close> is not among the sources. The
  design notes call the dispatch a reflection-based lookup of \<open>visit_<TypeName>\<close> with
  silent no-ops for unhandled variants, so the base class is taken to add no method that
  emits text: the methods found are the ones written in \<open>AstFormatter\<close>.
\<close>

definition astformatter_methods :: "string list" where
  "astformatter_methods =
     [''visit_BooleanNode'', ''visit_IdNode'', ''visit_NumberNode'', ''visit_StringNode'',
      ''visit_FormatStringNode'', ''visit_ContinueNode'', ''visit_BreakNode'', ''visit_ArrayNode'',
      ''visit_DictNode'', ''visit_OrNode'', ''visit_AndNode'', ''visit_ComparisonNode'',
      ''visit_ArithmeticNode'', ''visit_NotNode'', ''visit_CodeBlockNode'', ''visit_IndexNode'',
      ''visit_MethodNode'', ''visit_FunctionNode'', ''visit_AssignmentNode'',
      ''visit_PlusAssignmentNode'', ''visit_ForeachClauseNode'', ''visit_IfClauseNode'',
      ''visit_UMinusNode'', ''visit_IfNode'', ''visit_TernaryNode'', ''visit_ArgumentNode'']"

definition hasattr :: "string \<Rightarrow> bool" where
  "hasattr fname = (fname \<in> set astformatter_methods)"

type_synonym fm = "formatter \<Rightarrow> error + formatter"

definition then_f :: "fm \<Rightarrow> fm \<Rightarrow> fm" where
  "then_f m n = (\<lambda>f. case m f of Inl e \<Rightarrow> Inl e | Inr f' \<Rightarrow> n f')"

definition do_f :: "(formatter \<Rightarrow> formatter) \<Rightarrow> fm" where
  "do_f g = (\<lambda>f. Inr (g f))"

text \<open>A \<open>for\<close> loop over actions: each in turn, until one fails.\<close>

fun for_each :: "fm list \<Rightarrow> fm" where
  "for_each [] = do_f id"
| "for_each (m # ms) = then_f m (for_each ms)"

text \<open>
  \<open>BaseNode.accept\<close> for an \<open>AstFormatter\<close> (\<open>accept_node\<close>), and the body of the
  \<open>visit_\<close> method of each class (\<open>visit\<close>). In \<open>visit_IfClauseNode\<close> the prefix is empty
  for the first branch and \<open>el\<close> for the others. Calling \<open>accept\<close> on an \<open>elseblock\<close>
  that is \<open>None\<close> is an \<open>AttributeError\<close>. The classes without a method never reach
  \<open>visit\<close>.
\<close>

fun accept_node :: "node \<Rightarrow> fm"
  and visit :: "node \<Rightarrow> fm"
where
  "accept_node n = (if hasattr (''visit_'' @ class_name n) then visit n else do_f id)"
| "visit (BooleanNode b v) = do_f (fmt_append (if v then ''true'' else ''false''))"
| "visit (IdNode b v) = do_f (fmt_append v)"
| "visit (NumberNode b v) = do_f (fmt_append (str_int v))"
| "visit (StringNode b v) = do_f (fmt_append ([squote] @ escape v @ [squote]))"
| "visit (FormatStringNode b v) = do_f (fmt_append (''f'' @ [squote] @ v @ [squote]))"
| "visit (ContinueNode b v) =
     then_f (do_f force_linebreak) (then_f (do_f (fmt_append ''continue'')) (do_f force_linebreak))"
| "visit (BreakNode b v) =
     then_f (do_f force_linebreak) (then_f (do_f (fmt_append ''break'')) (do_f force_linebreak))"
| "visit (ArrayNode b a) =
     then_f (do_f (fmt_append ''['')) (then_f (accept_node a) (do_f (fmt_append '']'')))"
| "visit (DictNode b a) =
     then_f (do_f (fmt_append ''{'')) (then_f (accept_node a) (do_f (fmt_append ''}'')))"
| "visit (OrNode b left right) =
     then_f (accept_node left) (then_f (do_f (fmt_append '' or '')) (accept_node right))"
| "visit (AndNode b left right) =
     then_f (accept_node left) (then_f (do_f (fmt_append '' and '')) (accept_node right))"
| "visit (ComparisonNode b ctype left right) =
     then_f (accept_node left)
       (then_f (do_f (fmt_append ('' '' @ ctype @ '' ''))) (accept_node right))"
| "visit (ArithmeticNode b operation left right) =
     then_f (accept_node left)
       (then_f (\<lambda>f. case map_of arithmic_map operation of
                       None \<Rightarrow> Inl (KeyError operation)
                     | Some symbol \<Rightarrow> Inr (fmt_append ('' '' @ symbol @ '' '') f))
               (accept_node right))"
| "visit (NotNode b v) = then_f (do_f (fmt_append '' not '')) (accept_node v)"
| "visit (CodeBlockNode b ls) =
     for_each (map (\<lambda>i. then_f (accept_node i) (do_f force_linebreak)) ls)"
| "visit (IndexNode b iobject index) =
     then_f (accept_node iobject)
       (then_f (do_f (fmt_append ''['')) (then_f (accept_node index) (do_f (fmt_append '']''))))"
| "visit (MethodNode b source_object name a) =
     then_f (accept_node source_object)
       (then_f (do_f (fmt_append (''.'' @ name @ ''('')))
         (then_f (accept_node a) (do_f (fmt_append '')''))))"
| "visit (FunctionNode b func_name a) =
     then_f (do_f (fmt_append (func_name @ ''('')))
       (then_f (accept_node a) (do_f (fmt_append '')'')))"
| "visit (AssignmentNode b var_name v) =
     then_f (do_f (fmt_append (var_name @ '' = ''))) (accept_node v)"
| "visit (PlusAssignmentNode b var_name v) =
     then_f (do_f (fmt_append (var_name @ '' += ''))) (accept_node v)"
| "visit (ForeachClauseNode b varnames items block) =
     then_f (do_f eventual_linebreak)
    (then_f (do_f (fmt_append ''foreach ''))
    (then_f (do_f (fmt_append (join_comma varnames)))
    (then_f (do_f (fmt_append '' : ''))
    (then_f (accept_node items)
    (then_f (do_f (\<lambda>f. f\<lparr>indentstr := indentstr f @ '' ''\<rparr>))
    (then_f (do_f force_linebreak)
    (then_f (accept_node block)
    (then_f (do_f (\<lambda>f. f\<lparr>indentstr := butlast (indentstr f)\<rparr>))
    (then_f (do_f force_linebreak)
    (then_f (do_f (fmt_append ''endforeach'')) (do_f force_linebreak)))))))))))"
| "visit (IfClauseNode b ifs els) =
     then_f (case ifs of
               [] \<Rightarrow> do_f id
             | i # r \<Rightarrow>
                 then_f (do_f (fmt_append ([] @ ''if '')))
                (then_f (accept_node i)
                        (for_each (map (\<lambda>j. then_f (do_f (fmt_append (''el'' @ ''if '')))
                                                    (accept_node j)) r))))
    (then_f (case els of
               None \<Rightarrow> then_f (do_f (fmt_append ''else'')) (\<lambda>f. Inl AttributeError)
             | Some e \<Rightarrow>
                 if \<not> is_EmptyNode e
                 then then_f (do_f (fmt_append ''else'')) (accept_node e)
                 else do_f id)
            (do_f (fmt_append ''endif'')))"
| "visit (UMinusNode b v) = then_f (do_f (fmt_append ''-'')) (accept_node v)"
| "visit (IfNode b condition block) =
     then_f (accept_node condition) (then_f (do_f force_linebreak) (accept_node block))"
| "visit (TernaryNode b condition trueblock falseblock) =
     then_f (accept_node condition)
    (then_f (do_f (fmt_append '' ? ''))
    (then_f (accept_node trueblock)
    (then_f (do_f (fmt_append '' : '')) (accept_node falseblock))))"
| "visit (ArgumentNode b arguments commas kwargs order_error) =
     then_f (for_each (map (\<lambda>i. then_f (accept_node i) (do_f (fmt_append '', ''))) arguments))
    (then_f (for_each (map (\<lambda>kv. then_f (accept_node (fst kv))
                                  (then_f (do_f (fmt_append '' : ''))
                                  (then_f (accept_node (snd kv))
                                          (do_f (fmt_append '', ''))))) kwargs))
            (do_f (\<lambda>f. f\<lparr>currline := sub_trailing_comma (currline f)\<rparr>)))"
| "visit (MultilineFormatStringNode b v) = (\<lambda>f. Inl AttributeError)"
| "visit (EmptyNode b) = (\<lambda>f. Inl AttributeError)"
| "visit (ParenthesizedNode b inner) = (\<lambda>f. Inl AttributeError)"

text \<open>
  \<open>mfmt.run\<close> on a parsed file: the formatter visits the code block, \<open>end\<close> closes the
  last line, and each line is printed, that is, followed by a newline.
\<close>

definition format_block :: "node \<Rightarrow> error + string list" where
  "format_block block =
     (case accept_node block formatter_init of
        Inl e \<Rightarrow> Inl e
      | Inr f \<Rightarrow> Inr (lines (fmt_end f)))"

definition printed :: "string list \<Rightarrow> string" where
  "printed ls = concat (map (\<lambda>l. l @ [nl]) ls)"

text \<open>\<open>format(parse(text))\<close>\<close>

definition format_text :: "nat \<Rightarrow> string \<Rightarrow> string \<Rightarrow> error + string list" where
  "format_text fuel c fname =
     (case parse_text fuel c fname of
        Inl e \<Rightarrow> Inl e
      | Inr (block, s) \<Rightarrow> format_block block)"

section \<open>Running the model\<close>

text \<open>
  Rewrite rules that run the definitions on a given state, one step at a time: each rule
  fires only once its state is there, so a branch is unfolded when it is taken.
\<close>

lemma bind_p_app: "bind_p m f s = (case m s of Inl e \<Rightarrow> Inl e | Inr (x, s') \<Rightarrow> f x s')"
  by (simp add: bind_p_def)

lemma seq_p_app: "seq_p m n s = (case m s of Inl e \<Rightarrow> Inl e | Inr (x, s') \<Rightarrow> n s')"
  by (simp add: seq_p_def bind_p_def)

lemma ret_app: "ret x s = Inr (x, s)"
  by (simp add: ret_def)

lemma raise_app: "raise e s = Inl e"
  by (simp add: raise_def)

lemma get_current_app: "get_current s = Inr (current s, s)"
  by (simp add: get_current_def)

lemma get_in_ternary_app: "get_in_ternary s = Inr (in_ternary s, s)"
  by (simp add: get_in_ternary_def)

lemma set_in_ternary_app: "set_in_ternary v s = Inr ((), s\<lparr>in_ternary := v\<rparr>)"
  by (simp add: set_in_ternary_def)

lemma begin_p_app: "begin_p s = Inr ((), s\<lparr>stack := current s # stack s\<rparr>)"
  by (simp add: begin_p_def)

lemmas end_p_app = end_p_def [THEN fun_cong]
lemmas getsym_app = getsym_def [THEN fun_cong]
lemmas accept_app = accept_def [THEN fun_cong]
lemmas accept_any_app = accept_any_def [THEN fun_cong]
lemmas parse_error_app = parse_error_def [THEN fun_cong]
lemmas new_base_app = new_base_def [THEN fun_cong]
lemmas warn_app = warn_def [THEN fun_cong]
lemmas parse_app = parse_def [THEN fun_cong]

lemma run_0_app: "run 0 c s = Inl OutOfFuel"
  by (simp add: raise_def)

lemma run_Suc_app: "run (Suc n) c s = dispatch (run n) c s"
  by simp

lemma run_numeral_app: "run (numeral k) c s = dispatch (run (pred_numeral k)) c s"
  by (simp add: numeral_eq_Suc)

lemma then_f_app: "then_f m n f = (case m f of Inl e \<Rightarrow> Inl e | Inr f' \<Rightarrow> n f')"
  by (simp add: then_f_def)

lemma do_f_app: "do_f g f = Inr (g f)"
  by (simp add: do_f_def)



lemmas parser_eval =
  bind_p_app seq_p_app ret_app raise_app get_current_app get_in_ternary_app
  set_in_ternary_app begin_p_app end_p_app getsym_app accept_app accept_any_app parse_error_app
  new_base_app warn_app run_Suc_app run_0_app run_numeral_app parse_app
  dispatch_def statement_def e1_def e2_def e2_loop_def e3_def e3_loop_def e4_def e5_def
  arith_loop_def e5addsub_def e5addsub_loop_def e5muldiv_def e5muldiv_loop_def e6_def e7_def
  e7_loop_def e8_def e9_def str_node_def key_values_def key_values_loop_def args_def
  args_loop_def method_call_def index_call_def expect_id_def foreachblock_def ifblock_def
  elseifblock_def elseblock_def line_def codeblock_def codeblock_loop_def
  append_if_def set_elseblock_def append_line_def finish_def node_base_def token_base_def
  elementary_base_def expect_def block_expect_def comparison_map_def addsub_map_def muldiv_map_def
  arg_append_def add_comma_def set_kwarg_no_check_def same_key_def duplicate_warning_def
  set_kwarg_def is_IdNode_def is_EmptyNode_def eof_token_def
  parse_text_def parser_init_def lexer_init_def
  attach_comment_def choose_node_def pass_enclosing_def pass_before_def pass_after_def nearest_def

lemmas lexer_eval =
  lex_next.simps lex_step_def Let_def token_specification_def lit_def re_ignore_def
  re_multiline_fstring_def re_multiline_string_def re_fstring_def re_string_def re_id_def
  re_number_def re_prefixed_def re_comment_def is_id_start_def is_id_char_def is_digit_def
  is_hex_def is_oct_def is_bin_def mk_token_def lex_keywords_def future_keywords_def
  int_base0_def digits_value_def digit_value_def
  escape_sub.simps escape_match_def single_escape_def code_point_def newline_warning_def
  parse_exception_str_def

lemmas getline_eval = getline_def py_slice_def py_find_def norm_idx_def

lemmas formatter_eval =
  then_f_app do_f_app hasattr_def astformatter_methods_def format_block_def format_text_def
  formatter_init_def fmt_end_def fmt_append_def force_linebreak_def eventual_linebreak_def
  py_strip_def py_isspace_def escape_def arithmic_map_def sub_trailing_comma_def printed_def
  str_int_def str_nat.simps digit_char_def

section \<open>The lexer, pattern by pattern\<close>

text \<open>
  What \<open>lex_matched\<close> does for each pattern, and which pattern matches first, read off
  the first character of the remaining text. These are consequences of the definitions;
  running the lexer with them avoids going through the whole pattern list at each token.
\<close>

definition plain_tids :: "tid list" where
  "plain_tids =
     [T_comma, T_plusassign, T_dot, T_plus, T_dash, T_star, T_percent, T_fslash, T_colon,
      T_equal, T_nequal, T_assign, T_le, T_lt, T_ge, T_gt, T_questionmark]"

lemma lex_matched_ignore:
  "lex_matched lx T_ignore n = Inr (None, lx\<lparr>col := int (loc lx) - lx_line_start lx, loc := loc lx + n\<rparr>)"
  by (simp add: lex_matched_def)

lemma lex_matched_plain:
  "t \<in> set plain_tids \<Longrightarrow>
   lex_matched lx t n =
     Inr (Some (mk_token lx t n VNone), lx\<lparr>col := int (loc lx) - lx_line_start lx, loc := loc lx + n\<rparr>)"
  by (auto simp: lex_matched_def plain_tids_def)

lemma lex_matched_brackets:
  "lex_matched lx T_lparen n =
     Inr (Some (mk_token lx T_lparen n VNone),
          lx\<lparr>col := int (loc lx) - lx_line_start lx, loc := loc lx + n, par_count := par_count lx + 1\<rparr>)"
  "lex_matched lx T_rparen n =
     Inr (Some (mk_token lx T_rparen n VNone),
          lx\<lparr>col := int (loc lx) - lx_line_start lx, loc := loc lx + n, par_count := par_count lx - 1\<rparr>)"
  "lex_matched lx T_lbracket n =
     Inr (Some (mk_token lx T_lbracket n VNone),
          lx\<lparr>col := int (loc lx) - lx_line_start lx, loc := loc lx + n,
             bracket_count := bracket_count lx + 1\<rparr>)"
  "lex_matched lx T_rbracket n =
     Inr (Some (mk_token lx T_rbracket n VNone),
          lx\<lparr>col := int (loc lx) - lx_line_start lx, loc := loc lx + n,
             bracket_count := bracket_count lx - 1\<rparr>)"
  "lex_matched lx T_lcurl n =
     Inr (Some (mk_token lx T_lcurl n VNone),
          lx\<lparr>col := int (loc lx) - lx_line_start lx, loc := loc lx + n, curl_count := curl_count lx + 1\<rparr>)"
  "lex_matched lx T_rcurl n =
     Inr (Some (mk_token lx T_rcurl n VNone),
          lx\<lparr>col := int (loc lx) - lx_line_start lx, loc := loc lx + n, curl_count := curl_count lx - 1\<rparr>)"
  by (simp_all add: lex_matched_def)

lemma lex_matched_dblquote:
  "lex_matched lx T_dblquote n =
     Inl (ParseException ''Double quotes are not supported. Use single quotes.''
            (getline (code lx) (lx_line_start lx)) (lx_lineno lx) (int (loc lx) - lx_line_start lx))"
  by (simp add: lex_matched_def)

lemma lex_matched_number:
  "lex_matched lx T_number n =
     Inr (Some (mk_token lx T_number n (VInt (int_base0 (take n (drop (loc lx) (code lx)))))),
          lx\<lparr>col := int (loc lx) - lx_line_start lx, loc := loc lx + n\<rparr>)"
  by (simp add: lex_matched_def)

lemma lex_matched_eol_cont:
  "lex_matched lx T_eol_cont n =
     Inr (None, lx\<lparr>col := int (loc lx) - lx_line_start lx, loc := loc lx + n,
                   lx_lineno := lx_lineno lx + 1, lx_line_start := int (loc lx + n)\<rparr>)"
  by (simp add: lex_matched_def)

lemma lex_matched_eol:
  "lex_matched lx T_eol n =
     Inr (if par_count lx > 0 \<or> bracket_count lx > 0 \<or> curl_count lx > 0 then None
          else Some (mk_token lx T_eol n VNone),
          lx\<lparr>col := int (loc lx) - lx_line_start lx, loc := loc lx + n,
             lx_lineno := lx_lineno lx + 1, lx_line_start := int (loc lx + n)\<rparr>)"
  by (simp add: lex_matched_def)

lemma lex_matched_comment:
  "lex_matched lx T_comment n =
     Inr (None, lx\<lparr>col := int (loc lx) - lx_line_start lx, loc := loc lx + n,
                   comments := comments lx @
                     [\<lparr>c_line_start = lx_line_start lx, c_lineno = lx_lineno lx,
                       c_colno = int (loc lx) - lx_line_start lx,
                       c_bytespan = (int (loc lx), int (loc lx + n)),
                       c_text = take n (drop (loc lx) (code lx))\<rparr>]\<rparr>)"
  by (simp add: lex_matched_def Let_def)

lemma lex_matched_id:
  "lex_matched lx T_id n =
     (case map_of lex_keywords (take n (drop (loc lx) (code lx))) of
        Some keyword \<Rightarrow>
          Inr (Some (mk_token lx keyword n VNone),
               lx\<lparr>col := int (loc lx) - lx_line_start lx, loc := loc lx + n\<rparr>)
      | None \<Rightarrow>
          Inr (Some (mk_token lx T_id n (VStr (take n (drop (loc lx) (code lx))))),
               if take n (drop (loc lx) (code lx)) \<in> set future_keywords
               then lx\<lparr>col := int (loc lx) - lx_line_start lx, loc := loc lx + n,
                       warnings := warnings lx @
                         [''Identifier '' @ [squote] @ take n (drop (loc lx) (code lx)) @ [squote]
                          @ '' will become a reserved keyword in a future release. Please rename it.'']\<rparr>
               else lx\<lparr>col := int (loc lx) - lx_line_start lx, loc := loc lx + n\<rparr>))"
  by (simp add: lex_matched_def Let_def)

lemma lex_matched_strings:
  "lex_matched lx T_string n =
     (case escape_sub (py_slice (take n (drop (loc lx) (code lx))) 1 (- 1)) of
        Inl (Inl m) \<Rightarrow>
          Inl (MesonException (''Failed to parse escape sequence: '' @ [squote] @ m @ [squote]
                 @ '' in string:'' @ [nl] @ ''  '' @ take n (drop (loc lx) (code lx))))
      | Inl (Inr m) \<Rightarrow> Inl (Unrepresentable m)
      | Inr v \<Rightarrow>
          Inr (Some (mk_token lx T_string n (VStr v)),
               if nl \<in> set (take n (drop (loc lx) (code lx)))
               then lx\<lparr>col := int (loc lx) - lx_line_start lx, loc := loc lx + n,
                       warnings := warnings lx @
                         [parse_exception_str newline_warning
                            (getline (code lx) (lx_line_start lx)) (int (loc lx) - lx_line_start lx)]\<rparr>
               else lx\<lparr>col := int (loc lx) - lx_line_start lx, loc := loc lx + n\<rparr>))"
  "lex_matched lx T_fstring n =
     (case escape_sub (py_slice (take n (drop (loc lx) (code lx))) 2 (- 1)) of
        Inl (Inl m) \<Rightarrow>
          Inl (MesonException (''Failed to parse escape sequence: '' @ [squote] @ m @ [squote]
                 @ '' in string:'' @ [nl] @ ''  '' @ take n (drop (loc lx) (code lx))))
      | Inl (Inr m) \<Rightarrow> Inl (Unrepresentable m)
      | Inr v \<Rightarrow>
          Inr (Some (mk_token lx T_fstring n (VStr v)),
               if nl \<in> set (take n (drop (loc lx) (code lx)))
               then lx\<lparr>col := int (loc lx) - lx_line_start lx, loc := loc lx + n,
                       warnings := warnings lx @
                         [parse_exception_str newline_warning
                            (getline (code lx) (lx_line_start lx)) (int (loc lx) - lx_line_start lx)]\<rparr>
               else lx\<lparr>col := int (loc lx) - lx_line_start lx, loc := loc lx + n\<rparr>))"
  by (simp_all add: lex_matched_def Let_def)

lemma lex_matched_multiline:
  "lex_matched lx T_multiline_string n =
     Inr (Some (mk_token lx T_string n (VStr (py_slice (take n (drop (loc lx) (code lx))) 3 (- 3)))),
          if nl \<in> set (take n (drop (loc lx) (code lx)))
          then lx\<lparr>col := int (loc lx) - lx_line_start lx, loc := loc lx + n,
                  lx_lineno := lx_lineno lx + int (count_list (take n (drop (loc lx) (code lx))) nl),
                  lx_line_start := int (loc lx + n)
                    - int (length (rev (takeWhile (\<lambda>c. c \<noteq> nl) (rev (take n (drop (loc lx) (code lx)))))))\<rparr>
          else lx\<lparr>col := int (loc lx) - lx_line_start lx, loc := loc lx + n\<rparr>)"
  "lex_matched lx T_multiline_fstring n =
     Inr (Some (mk_token lx T_multiline_fstring n
                  (VStr (py_slice (take n (drop (loc lx) (code lx))) 4 (- 3)))),
          if nl \<in> set (take n (drop (loc lx) (code lx)))
          then lx\<lparr>col := int (loc lx) - lx_line_start lx, loc := loc lx + n,
                  lx_lineno := lx_lineno lx + int (count_list (take n (drop (loc lx) (code lx))) nl),
                  lx_line_start := int (loc lx + n)
                    - int (length (rev (takeWhile (\<lambda>c. c \<noteq> nl) (rev (take n (drop (loc lx) (code lx)))))))\<rparr>
          else lx\<lparr>col := int (loc lx) - lx_line_start lx, loc := loc lx + n\<rparr>)"
  by (simp_all add: lex_matched_def Let_def)

lemmas matcher_defs =
  token_specification_def lit_def re_ignore_def re_multiline_fstring_def
  re_multiline_string_def re_fstring_def re_string_def re_id_def re_number_def re_prefixed_def
  re_comment_def

lemma first_match_punct:
  "first_match token_specification (CHR '' '' # r) = Some (T_ignore, 1)"
  "first_match token_specification (tab # r) = Some (T_ignore, 1)"
  "first_match token_specification (nl # r) = Some (T_eol, 1)"
  "first_match token_specification (CHR ''('' # r) = Some (T_lparen, 1)"
  "first_match token_specification (CHR '')'' # r) = Some (T_rparen, 1)"
  "first_match token_specification (CHR ''['' # r) = Some (T_lbracket, 1)"
  "first_match token_specification (CHR '']'' # r) = Some (T_rbracket, 1)"
  "first_match token_specification (CHR ''{'' # r) = Some (T_lcurl, 1)"
  "first_match token_specification (CHR ''}'' # r) = Some (T_rcurl, 1)"
  "first_match token_specification (dquote # r) = Some (T_dblquote, 1)"
  "first_match token_specification (CHR '','' # r) = Some (T_comma, 1)"
  "first_match token_specification (CHR ''.'' # r) = Some (T_dot, 1)"
  "first_match token_specification (CHR ''-'' # r) = Some (T_dash, 1)"
  "first_match token_specification (CHR ''*'' # r) = Some (T_star, 1)"
  "first_match token_specification (CHR ''%'' # r) = Some (T_percent, 1)"
  "first_match token_specification (CHR ''/'' # r) = Some (T_fslash, 1)"
  "first_match token_specification (CHR '':'' # r) = Some (T_colon, 1)"
  "first_match token_specification (CHR ''?'' # r) = Some (T_questionmark, 1)"
  by (simp_all add: matcher_defs is_id_start_def split: list.split)

lemma first_match_two:
  "first_match token_specification (CHR ''+'' # r) =
     (if take 1 r = ''='' then Some (T_plusassign, 2) else Some (T_plus, 1))"
  "first_match token_specification (CHR ''='' # r) =
     (if take 1 r = ''='' then Some (T_equal, 2) else Some (T_assign, 1))"
  "first_match token_specification (CHR ''<'' # r) =
     (if take 1 r = ''='' then Some (T_le, 2) else Some (T_lt, 1))"
  "first_match token_specification (CHR ''>'' # r) =
     (if take 1 r = ''='' then Some (T_ge, 2) else Some (T_gt, 1))"
  "first_match token_specification (CHR ''!'' # r) =
     (if take 1 r = ''='' then Some (T_nequal, 2) else None)"
  by (simp_all add: matcher_defs is_id_start_def split: list.split)

lemma first_match_comment:
  "first_match token_specification (CHR ''#'' # r) =
     Some (T_comment, Suc (length (takeWhile (\<lambda>d. d \<noteq> nl) r)))"
  by (simp add: matcher_defs is_id_start_def split: list.split)

lemma first_match_id:
  "is_id_start c \<Longrightarrow> c \<noteq> CHR ''f'' \<Longrightarrow>
   first_match token_specification (c # r) = Some (T_id, Suc (length (takeWhile is_id_char r)))"
  by (auto simp: matcher_defs is_id_start_def)

lemma first_match_f:
  "take 1 r \<noteq> [squote] \<Longrightarrow>
   first_match token_specification (CHR ''f'' # r) = Some (T_id, Suc (length (takeWhile is_id_char r)))"
  by (cases r) (auto simp: matcher_defs is_id_start_def)

lemma first_match_digit:
  "c \<in> set ''123456789'' \<Longrightarrow>
   first_match token_specification (c # r) = Some (T_number, Suc (length (takeWhile is_digit r)))"
  by (auto simp: matcher_defs is_id_start_def split: list.split)

lemma quote_not_matched:
  "re_ignore (squote # r) = None" "re_multiline_fstring (squote # r) = None"
  "re_fstring (squote # r) = None" "re_id (squote # r) = None" "re_number (squote # r) = None"
  "re_comment (squote # r) = None"
  by (simp_all add: matcher_defs is_id_start_def split: list.split)

lemma first_match_quote:
  "first_match token_specification (squote # r) =
     (case re_multiline_string (squote # r) of
        Some n \<Rightarrow> Some (T_multiline_string, n)
      | None \<Rightarrow> (case re_string (squote # r) of Some n \<Rightarrow> Some (T_string, n) | None \<Rightarrow> None))"
  by (simp add: token_specification_def quote_not_matched lit_def split: option.split)

lemma first_match_nil: "first_match token_specification [] = None"
  by (simp add: matcher_defs)

lemma first_match_zero:
  "first_match token_specification (CHR ''0'' # r) =
     (case re_number (CHR ''0'' # r) of Some n \<Rightarrow> Some (T_number, n) | None \<Rightarrow> None)"
proof -
  have "re_number (CHR ''0'' # r) \<noteq> None"
    by (simp add: re_number_def split: option.split)
  then show ?thesis
    by (auto simp: token_specification_def re_ignore_def re_multiline_fstring_def re_fstring_def
        re_id_def is_id_start_def)
qed

lemma drop0_Cons: "drop 0 (x # xs) = x # xs"
  by simp

lemma drop0_Nil: "drop 0 [] = []"
  by simp

lemmas lexer_fast =
  lex_next.simps lex_step_def lex_matched_ignore lex_matched_plain lex_matched_brackets
  lex_matched_dblquote lex_matched_number lex_matched_eol_cont lex_matched_eol
  lex_matched_comment lex_matched_id lex_matched_strings lex_matched_multiline plain_tids_def
  first_match_punct first_match_two first_match_comment first_match_id first_match_f
  first_match_digit first_match_quote first_match_zero first_match_nil
  re_multiline_string_def re_string_def re_number_def re_prefixed_def
  is_id_start_def is_id_char_def is_digit_def is_hex_def is_oct_def is_bin_def
  mk_token_def lex_keywords_def future_keywords_def int_base0_def digits_value_def
  digit_value_def escape_sub.simps escape_match_def single_escape_def code_point_def
  newline_warning_def parse_exception_str_def drop0_Cons drop0_Nil

section \<open>The position stack at the end of a parse\<close>

lemma attach_comment_stack: "attach_comment c s = Inr s' \<Longrightarrow> stack s' = stack s"
  by (auto simp: attach_comment_def split: if_splits sum.splits prod.splits)

lemma attach_comments_stack: "attach_comments cs s = Inr s' \<Longrightarrow> stack s' = stack s"
proof (induction cs arbitrary: s)
  case Nil
  then show ?case by simp
next
  case (Cons c cs)
  then show ?case
    by (auto split: sum.splits dest: attach_comment_stack)
qed

text \<open>
  C9. Whenever the top-level parse of a text returns a tree, the position stack of the
  parser is empty: \<open>parse\<close> asserts it after the end of input has been met, so a stack
  that is not empty makes the parse fail with an \<open>AssertionError\<close> instead of returning.
\<close>

theorem parse_returns_with_empty_stack:
  "parse_text fuel c fname = Inr (block, s') \<Longrightarrow> stack s' = []"
  by (auto simp: parse_text_def parse_def bind_p_def seq_p_def
      split: sum.splits prod.splits if_splits dest: attach_comments_stack)

theorem parse_returns_with_empty_stack_witness:
  "(case parse_text 40 ''x = 1'' [] of
      Inl e \<Rightarrow> False
    | Inr (block, s') \<Rightarrow> stack s' = [])"
proof -
  define src where "src = ''x = 1''"
  have src: "\<And>n. drop n src = drop n ''x = 1''" "length src = 5"
    "\<And>k. getline src k = getline ''x = 1'' k"
    by (simp_all add: src_def)
  have "\<exists>r. parse_text 40 src [] = Inr r"
    by (simp add: parser_eval lexer_fast src del: drop_0 drop0)
  then obtain block s' where r: "parse_text 40 ''x = 1'' [] = Inr (block, s')"
    unfolding src_def by auto
  from parse_returns_with_empty_stack [OF r] r show ?thesis by simp
qed

section \<open>Nodes without a visit method\<close>

text \<open>
  C10. For a node whose class has no \<open>visit_\<close> method on the formatter, \<open>accept\<close> does
  nothing. \<open>ParenthesizedNode\<close> and \<open>MultilineFormatStringNode\<close> are such classes, so the
  formatter emits no text for them: the parentheses and the whole inner expression, and
  the multi-line format string, are absent from the output, as in the formatting of an
  assignment of a parenthesised expression.
\<close>

theorem accept_without_visit_method:
  "(\<not> hasattr (''visit_'' @ class_name n) \<longrightarrow> accept_node n f = Inr f)
   \<and> accept_node (ParenthesizedNode b inner) f = Inr f
   \<and> accept_node (MultilineFormatStringNode b v) f = Inr f
   \<and> format_block (CodeBlockNode b [AssignmentNode b ''x'' (ParenthesizedNode b inner)])
       = Inr [''x = '', []]"
  by (simp add: formatter_eval)

theorem accept_without_visit_method_witness:
  "\<not> hasattr (''visit_'' @ class_name (EmptyNode
        \<lparr>nid = 0, n_lineno = 1, n_colno = 0, n_filename = [], end_lineno = 1, end_colno = 0\<rparr>))
   \<and> accept_node (EmptyNode
        \<lparr>nid = 0, n_lineno = 1, n_colno = 0, n_filename = [], end_lineno = 1, end_colno = 0\<rparr>)
        formatter_init = Inr formatter_init"
  using accept_without_visit_method
    [of "EmptyNode \<lparr>nid = 0, n_lineno = 1, n_colno = 0, n_filename = [], end_lineno = 1, end_colno = 0\<rparr>"
        formatter_init]
  by (simp add: hasattr_def astformatter_methods_def)

end
